theory Spec2Isabelle
  imports Complex_Main
begin

section \<open>Numbers, angles and documents\<close>

text \<open>
  A C++ \<open>double\<close> is modelled as a real number: arithmetic is exact, without rounding or
  overflow. The one place where real arithmetic has no answer, a division by zero, is
  written out wherever the source divides: the solver's quotient follows IEEE 754
  (\<open>ieee_div\<close>), and the controller's divisions end the model's run with \<open>NotFinite\<close>
  where the program goes on computing with an infinity or a NaN, which the model does not
  follow. An out-of-range index into a \<open>std::deque\<close> is undefined behaviour in C++ and is
  the error \<open>OutOfBounds\<close> here. \<open>SolverFault\<close> is an object thrown by the solver that
  \<open>update_joints\<close> does not catch.
\<close>

datatype error = OutOfBounds | ConfigError | NotFinite | SolverFault

text \<open>\<open>round\<close> of the C library rounds halfway cases away from zero.\<close>

definition c_round :: "real \<Rightarrow> real" where
  "c_round v = (if 0 \<le> v then of_int \<lfloor>v + 1 / 2\<rfloor> else of_int \<lceil>v - 1 / 2\<rceil>)"

text \<open>
  A stored \<open>keisan::Angle<double>\<close> is its measure in radians, or \<open>None\<close> when the double
  is NaN. \<open>degree\<close> converts as \<open>Angle::degree()\<close> does.
\<close>

type_synonym angle = "real option"

definition degree :: "angle \<Rightarrow> real option" where
  "degree a = map_option (\<lambda>r. r * 180 / pi) a"

definition make_degree :: "real \<Rightarrow> real" where
  "make_degree d = d * pi / 180"

definition neg_angle :: "angle \<Rightarrow> angle" where
  "neg_angle a = map_option uminus a"

text \<open>The result of a floating-point division, with a zero divisor read as \<open>+0.0\<close>.\<close>

datatype quotient = Fin real | PInf | NInf | NaN

definition ieee_div :: "real \<Rightarrow> real \<Rightarrow> quotient" where
  "ieee_div a b =
     (if b \<noteq> 0 then Fin (a / b)
      else if a = 0 then NaN
      else if 0 < a then PInf else NInf)"

text \<open>
  \<open>keisan::clamp(value, min, max)\<close> is \<open>std::min(std::max(value, min), max)\<close>: an
  infinity is cut to the bound, a NaN compares false with everything and is returned
  as it is.
\<close>

fun clamp :: "quotient \<Rightarrow> real \<Rightarrow> real \<Rightarrow> real option" where
  "clamp (Fin v) lo hi = Some (min (max v lo) hi)"
| "clamp PInf lo hi = Some hi"
| "clamp NInf lo hi = Some (min lo hi)"
| "clamp NaN lo hi = None"

text \<open>\<open>std::sqrt\<close> and \<open>std::acos\<close> answer NaN outside their domains: a domain error.\<close>

definition c_sqrt :: "real \<Rightarrow> real option" where
  "c_sqrt v = (if v < 0 then None else Some (sqrt v))"

definition c_arccos :: "real option \<Rightarrow> angle" where
  "c_arccos v =
     (case v of None \<Rightarrow> None
      | Some r \<Rightarrow> if - 1 \<le> r \<and> r \<le> 1 then Some (arccos r) else None)"

definition hypot :: "real \<Rightarrow> real \<Rightarrow> real" where
  "hypot a b = sqrt (a * a + b * b)"

text \<open>\<open>keisan::signed_arctan(y, x)\<close> is the two-argument arctangent, total on the reals.\<close>

definition signed_arctan :: "real \<Rightarrow> real \<Rightarrow> real" where
  "signed_arctan y x =
     (if 0 < x then arctan (y / x)
      else if x < 0 then (if 0 \<le> y then arctan (y / x) + pi else arctan (y / x) - pi)
      else if 0 < y then pi / 2
      else if y < 0 then - (pi / 2)
      else 0)"

text \<open>A configuration document, as \<open>nlohmann::json\<close> holds it.\<close>

datatype json = JNull | JNumber real | JString string | JObject "(string \<times> json) list"

definition json_find :: "json \<Rightarrow> string \<Rightarrow> json option" where
  "json_find j k = (case j of JObject kvs \<Rightarrow> map_of kvs k | _ \<Rightarrow> None)"

text \<open>
  \<open>jitsuyo::assign_val(json, key, val)\<close> stores the value found under the key into the
  variable passed by reference and returns true; when the key is absent or the value has
  the wrong shape it returns false and the variable keeps what it held. The model returns
  the flag and the variable's new content.
\<close>

definition assign_val :: "json \<Rightarrow> string \<Rightarrow> real \<Rightarrow> bool \<times> real" where
  "assign_val j k val =
     (case json_find j k of Some (JNumber v) \<Rightarrow> (True, v) | _ \<Rightarrow> (False, val))"

definition assign_section :: "json \<Rightarrow> string \<Rightarrow> json \<Rightarrow> bool \<times> json" where
  "assign_section j k val =
     (case json_find j k of Some v \<Rightarrow> (True, v) | None \<Rightarrow> (False, val))"

section \<open>The leg inverse kinematics (kinematics.cpp)\<close>

text \<open>
  The joint identifiers the two source files name; every other member of
  \<open>JointId::list\<close> (the arms) is \<open>OTHER_JOINT n\<close>.
\<close>

datatype JointId =
    NECK_YAW | NECK_PITCH
  | LEFT_HIP_YAW | LEFT_HIP_ROLL | LEFT_HIP_PITCH | LEFT_UPPER_KNEE | LEFT_LOWER_KNEE
  | LEFT_ANKLE_PITCH | LEFT_ANKLE_ROLL
  | RIGHT_HIP_YAW | RIGHT_HIP_ROLL | RIGHT_HIP_PITCH | RIGHT_UPPER_KNEE | RIGHT_LOWER_KNEE
  | RIGHT_ANKLE_PITCH | RIGHT_ANKLE_ROLL
  | OTHER_JOINT nat

record Foot =
  foot_x :: real
  foot_y :: real
  foot_z :: real
  yaw :: real

record Kinematics =
  ankle_length :: real
  calf_length :: real
  knee_length :: real
  thigh_length :: real
  x_offset :: real
  y_offset :: real
  angles :: "JointId \<Rightarrow> angle"

definition reset_angles :: "Kinematics \<Rightarrow> Kinematics" where
  "reset_angles k = k\<lparr>angles := ((\<lambda>_. Some 0)(NECK_YAW := Some 0))(NECK_PITCH := Some 0)\<rparr>"

definition Kinematics_init :: Kinematics where
  "Kinematics_init = reset_angles
     \<lparr>ankle_length = 0, calf_length = 0, knee_length = 0, thigh_length = 0,
      x_offset = 0, y_offset = 0, angles = (\<lambda>_. None)\<rparr>"

text \<open>
  \<open>Kinematics::set_config\<close>: both groups are read, every readable field is stored at once,
  \<open>valid_config\<close> is computed, and the function ends without looking at it. The result
  type has room for the error the function never raises.
\<close>

definition Kinematics_set_config :: "json \<Rightarrow> Kinematics \<Rightarrow> error + Kinematics" where
  "Kinematics_set_config kinematic_data k =
     (let valid_config = True;
          (has_leg, leg_section) = assign_section kinematic_data ''leg'' JNull;
          (valid_config, k) =
            (if has_leg then
               (let valid_section = True;
                    (ok, v) = assign_val leg_section ''ankle_length'' (ankle_length k);
                    valid_section = (valid_section \<and> ok); k = k\<lparr>ankle_length := v\<rparr>;
                    (ok, v) = assign_val leg_section ''calf_length'' (calf_length k);
                    valid_section = (valid_section \<and> ok); k = k\<lparr>calf_length := v\<rparr>;
                    (ok, v) = assign_val leg_section ''knee_length'' (knee_length k);
                    valid_section = (valid_section \<and> ok); k = k\<lparr>knee_length := v\<rparr>;
                    (ok, v) = assign_val leg_section ''thigh_length'' (thigh_length k);
                    valid_section = (valid_section \<and> ok); k = k\<lparr>thigh_length := v\<rparr>
                in (if \<not> valid_section then False else valid_config, k))
             else (False, k));
          (has_offset, offset_section) = assign_section kinematic_data ''offset'' JNull;
          (valid_config, k) =
            (if has_offset then
               (let valid_section = True;
                    (ok, v) = assign_val offset_section ''x'' (x_offset k);
                    valid_section = (valid_section \<and> ok); k = k\<lparr>x_offset := v\<rparr>;
                    (ok, v) = assign_val offset_section ''y'' (y_offset k);
                    valid_section = (valid_section \<and> ok); k = k\<lparr>y_offset := v\<rparr>
                in (if \<not> valid_section then False else valid_config, k))
             else (False, k))
      in Inr k)"

text \<open>
  Lines 103 to 117 and 144 to 157 are the same computation on the rotated target
  \<open>(x2, y2, z2)\<close>: it yields \<open>hip_roll\<close>, \<open>hip_pitch\<close> and \<open>knee_pitch\<close>. The argument of the
  square root and the clamped ratio are named so that theorems can speak about them.
\<close>

definition sqrt_argument :: "real \<Rightarrow> real \<Rightarrow> real \<Rightarrow> real" where
  "sqrt_argument x2 y2 z2 = max 0 ((y2 * y2 + z2 * z2) - x2 * x2)"

definition clamped_ratio :: "Kinematics \<Rightarrow> real \<Rightarrow> real option" where
  "clamped_ratio k len = clamp (ieee_div len (2 * thigh_length k)) (- 1) 1"

definition leg_angles :: "Kinematics \<Rightarrow> real \<Rightarrow> real \<Rightarrow> real \<Rightarrow> angle \<times> angle \<times> angle" where
  "leg_angles k x2 y2 z2 =
     (let hip_roll = signed_arctan y2 z2 in
      case c_sqrt (sqrt_argument x2 y2 z2) of
        None \<Rightarrow> (Some hip_roll, None, None)
      | Some r \<Rightarrow>
          (let z3 = r - knee_length k;
               pitch = signed_arctan x2 z3;
               len = hypot x2 z3;
               knee_disp = c_arccos (clamped_ratio k len);
               hip_pitch = map_option (\<lambda>d. - pitch - d) knee_disp;
               knee_pitch = map_option (\<lambda>d. - pitch + d) knee_disp
           in (Some hip_roll, hip_pitch, knee_pitch)))"

definition left_target :: "Kinematics \<Rightarrow> Foot \<Rightarrow> real \<times> real \<times> real" where
  "left_target k left_foot =
     (let left_x = foot_x left_foot - x_offset k;
          left_y = foot_y left_foot - y_offset k;
          left_z = ankle_length k + calf_length k + knee_length k + thigh_length k
                     - foot_z left_foot;
          left_x2 = left_x * cos (yaw left_foot) + left_y * sin (yaw left_foot);
          left_y2 = - left_x * sin (yaw left_foot) + left_y * cos (yaw left_foot);
          left_z2 = left_z - ankle_length k
      in (left_x2, left_y2, left_z2))"

definition right_target :: "Kinematics \<Rightarrow> Foot \<Rightarrow> real \<times> real \<times> real" where
  "right_target k right_foot =
     (let right_x = foot_x right_foot - x_offset k;
          right_y = foot_y right_foot + y_offset k;
          right_z = ankle_length k + calf_length k + knee_length k + thigh_length k
                      - foot_z right_foot;
          right_x2 = right_x * cos (yaw right_foot) + right_y * sin (yaw right_foot);
          right_y2 = - right_x * sin (yaw right_foot) + right_y * cos (yaw right_foot);
          right_z2 = right_z - ankle_length k
      in (right_x2, right_y2, right_z2))"

definition solve_left :: "Kinematics \<Rightarrow> Foot \<Rightarrow> Kinematics" where
  "solve_left k left_foot =
     (let (left_x2, left_y2, left_z2) = left_target k left_foot;
          (hip_roll, hip_pitch, knee_pitch) = leg_angles k left_x2 left_y2 left_z2
      in k\<lparr>angles := (angles k)
            (LEFT_HIP_YAW := Some (yaw left_foot),
             LEFT_HIP_ROLL := hip_roll,
             LEFT_HIP_PITCH := neg_angle hip_pitch,
             LEFT_UPPER_KNEE := hip_pitch,
             LEFT_LOWER_KNEE := neg_angle knee_pitch,
             LEFT_ANKLE_PITCH := Some 0,
             LEFT_ANKLE_ROLL := neg_angle hip_roll)\<rparr>)"

definition solve_right :: "Kinematics \<Rightarrow> Foot \<Rightarrow> Kinematics" where
  "solve_right k right_foot =
     (let (right_x2, right_y2, right_z2) = right_target k right_foot;
          (hip_roll, hip_pitch, knee_pitch) = leg_angles k right_x2 right_y2 right_z2
      in k\<lparr>angles := (angles k)
            (RIGHT_HIP_YAW := Some (yaw right_foot),
             RIGHT_HIP_ROLL := hip_roll,
             RIGHT_HIP_PITCH := hip_pitch,
             RIGHT_UPPER_KNEE := neg_angle hip_pitch,
             RIGHT_LOWER_KNEE := neg_angle knee_pitch,
             RIGHT_ANKLE_PITCH := Some 0,
             RIGHT_ANKLE_ROLL := neg_angle hip_roll)\<rparr>)"

text \<open>
  \<open>Kinematics::solve_inverse_kinematics\<close>: the left leg (lines 94 to 125), then the right
  leg (lines 135 to 165). The source has no \<open>throw\<close>.
\<close>

definition solve_inverse_kinematics :: "Kinematics \<Rightarrow> Foot \<Rightarrow> Foot \<Rightarrow> Kinematics" where
  "solve_inverse_kinematics k left_foot right_foot =
     solve_right (solve_left k left_foot) right_foot"

text \<open>
  The solver stores the angles of a leg in place as soon as it has computed them (lines
  119 to 125 for the left leg, 159 to 165 for the right) and restores nothing. A call
  therefore leaves a solver state behind whether it returns or throws. What is thrown is
  an object of a class derived from \<open>std::exception\<close> or some other object.
\<close>

datatype thrown = StdException | OtherObject

datatype solver_result = Returned Kinematics | Threw thrown Kinematics

type_synonym solver = "Kinematics \<Rightarrow> Foot \<Rightarrow> Foot \<Rightarrow> solver_result"

definition solver_state :: "solver_result \<Rightarrow> Kinematics" where
  "solver_state r = (case r of Returned k \<Rightarrow> k | Threw t k \<Rightarrow> k)"



definition leg_joints :: "JointId list" where
  "leg_joints =
     [LEFT_HIP_YAW, LEFT_HIP_ROLL, LEFT_HIP_PITCH, LEFT_UPPER_KNEE, LEFT_LOWER_KNEE,
      LEFT_ANKLE_PITCH, LEFT_ANKLE_ROLL,
      RIGHT_HIP_YAW, RIGHT_HIP_ROLL, RIGHT_HIP_PITCH, RIGHT_UPPER_KNEE, RIGHT_LOWER_KNEE,
      RIGHT_ANKLE_PITCH, RIGHT_ANKLE_ROLL]"


section \<open>The gait controller (walking_manager.cpp)\<close>

datatype support = LEFT_FOOT | RIGHT_FOOT | BOTH_FEET

datatype walk_status = START | WALKING

record FootStep =
  position :: "real \<times> real"
  rotation :: real
  time :: real
  support_foot :: support

text \<open>A \<open>keisan::Matrix<1, 3>\<close> with the three operations the controller uses.\<close>

type_synonym vec3 = "real \<times> real \<times> real"

fun vec_add :: "vec3 \<Rightarrow> vec3 \<Rightarrow> vec3" where
  "vec_add (a, b, c) (d, e, f) = (a + d, b + e, c + f)"

fun vec_sub :: "vec3 \<Rightarrow> vec3 \<Rightarrow> vec3" where
  "vec_sub (a, b, c) (d, e, f) = (a - d, b - e, c - f)"

fun vec_div :: "vec3 \<Rightarrow> real \<Rightarrow> vec3" where
  "vec_div (a, b, c) n = (a / n, b / n, c / n)"

text \<open>
  The controller's members. Of the trajectory generator the controller sees the sequence
  of CoM samples (\<open>com_trajectory\<close>) and of the planner the footstep queue
  (\<open>foot_steps\<close>); \<open>planner_parameters\<close> and \<open>lipm_parameters\<close> hold what
  \<open>set_parameters\<close> was last given.
\<close>

record WalkingManager =
  kinematics :: Kinematics
  com_trajectory :: "(real \<times> real) list"
  lipm_parameters :: "real \<times> real \<times> real"
  foot_steps :: "FootStep list"
  planner_parameters :: "(real \<times> real) \<times> real \<times> real \<times> real"
  status :: walk_status
  initialized :: bool
  next_support :: support
  walk_rotation :: real
  time_step :: real
  dsp_duration :: real
  plan_period :: real
  step_frames :: real
  com_period :: real
  com_height :: real
  foot_height :: real
  feet_lateral :: real
  foot_y_offset :: real
  max_stride :: "real \<times> real"
  max_rotation :: real
  left_up :: real
  right_up :: real
  joints :: "(JointId \<times> real option) list"
  left_offset :: vec3
  left_offset_delta :: vec3
  left_foot_target :: vec3
  right_offset :: vec3
  right_offset_delta :: vec3
  right_foot_target :: vec3
  initial_left_foot :: vec3
  initial_right_foot :: vec3

text \<open>
  Modelled from the spec: the Footstep Planner and the CoM Trajectory Generator are
  collaborators whose code is not among the sources. \<open>plan\<close> "updates the queue" from the
  goal, the current pose, the next support foot and the status; \<open>update\<close> rebuilds the
  sample sequence from a time and the footsteps; \<open>pop_front\<close> removes the first sample.
  Both are parameters of the controller's operations, free to depend on what
  \<open>set_parameters\<close> stored and on the queue or sequence they replace.
\<close>

type_synonym planner =
  "(real \<times> real) \<times> real \<times> real \<times> real \<Rightarrow> real \<times> real \<Rightarrow> real \<Rightarrow> real \<times> real \<Rightarrow> real
     \<Rightarrow> support \<Rightarrow> walk_status \<Rightarrow> FootStep list \<Rightarrow> FootStep list"

type_synonym lipm =
  "real \<times> real \<times> real \<Rightarrow> real \<Rightarrow> FootStep list \<Rightarrow> (real \<times> real) list \<Rightarrow> (real \<times> real) list"

text \<open>
  The constructor. \<open>joint_list\<close> is \<open>JointId::list\<close>; \<open>com_period\<close> has no initialiser and
  starts with whatever \<open>uninit\<close> is. \<open>walk_rotation\<close> is default-constructed, taken as zero:
  \<open>set_goal\<close> assigns it before a tick reads it.
\<close>

definition WalkingManager_init :: "JointId list \<Rightarrow> real \<Rightarrow> WalkingManager" where
  "WalkingManager_init joint_list uninit =
     \<lparr>kinematics = Kinematics_init, com_trajectory = [], lipm_parameters = (0, 0, 0),
      foot_steps = [], planner_parameters = ((0, 0), 0, 0, 0),
      status = START, initialized = False, next_support = RIGHT_FOOT, walk_rotation = 0,
      time_step = 1 / 100, dsp_duration = 0, plan_period = 0, step_frames = 0,
      com_period = uninit, com_height = 0, foot_height = 0, feet_lateral = 0,
      foot_y_offset = 0, max_stride = (0, 0), max_rotation = make_degree 0,
      left_up = 0, right_up = 0, joints = map (\<lambda>j. (j, Some 0)) joint_list,
      left_offset = (0, 0, 0), left_offset_delta = (0, 0, 0), left_foot_target = (0, 0, 0),
      right_offset = (0, 0, 0), right_offset_delta = (0, 0, 0), right_foot_target = (0, 0, 0),
      initial_left_foot = (- 0.04360000000000016, 0.0495, 0.011499999999999982),
      initial_right_foot = (- 0.04360000000000016, - 0.0495, 0.011499999999999982)\<rparr>"

text \<open>
  \<open>WalkingManager::set_config\<close>, one definition for each of its four blocks (lines 78 to
  93, 95 to 109, 111 to 123, 125 to 143). Each \<open>assign_val\<close> writes straight into the
  member. A block yields what it contributes to \<open>valid_config\<close> and the controller.
  \<open>uninit\<close> is what the local \<open>max_rotation_double\<close> holds before \<open>max_a\<close> is read.
\<close>

definition read_timing :: "json \<Rightarrow> WalkingManager \<Rightarrow> bool \<times> WalkingManager" where
  "read_timing walking_data s =
     (let (has_timing, timing_section) = assign_section walking_data ''timing'' JNull
      in if has_timing then
           (let valid_section = True;
                (ok, v) = assign_val timing_section ''dsp_duration'' (dsp_duration s);
                valid_section = (valid_section \<and> ok); s = s\<lparr>dsp_duration := v\<rparr>;
                (ok, v) = assign_val timing_section ''plan_period'' (plan_period s);
                valid_section = (valid_section \<and> ok); s = s\<lparr>plan_period := v\<rparr>;
                (ok, v) = assign_val timing_section ''com_period'' (com_period s);
                valid_section = (valid_section \<and> ok); s = s\<lparr>com_period := v\<rparr>;
                (ok, v) = assign_val timing_section ''step_frames'' (step_frames s);
                valid_section = (valid_section \<and> ok); s = s\<lparr>step_frames := v\<rparr>
            in (valid_section, s))
         else (False, s))"

definition read_posture :: "json \<Rightarrow> WalkingManager \<Rightarrow> bool \<times> WalkingManager" where
  "read_posture walking_data s =
     (let (has_posture, posture_section) = assign_section walking_data ''posture'' JNull
      in if has_posture then
           (let valid_section = True;
                (ok, v) = assign_val posture_section ''com_height'' (com_height s);
                valid_section = (valid_section \<and> ok); s = s\<lparr>com_height := v\<rparr>;
                (ok, v) = assign_val posture_section ''foot_height'' (foot_height s);
                valid_section = (valid_section \<and> ok); s = s\<lparr>foot_height := v\<rparr>;
                (ok, v) = assign_val posture_section ''feet_lateral'' (feet_lateral s);
                valid_section = (valid_section \<and> ok); s = s\<lparr>feet_lateral := v\<rparr>
            in (valid_section, s))
         else (False, s))"

definition read_offset :: "json \<Rightarrow> WalkingManager \<Rightarrow> bool \<times> WalkingManager" where
  "read_offset walking_data s =
     (let (has_offset, offset_section) = assign_section walking_data ''offset'' JNull
      in if has_offset then
           (let valid_section = True;
                (ok, v) = assign_val offset_section ''foot_y_offset'' (foot_y_offset s);
                valid_section = (valid_section \<and> ok); s = s\<lparr>foot_y_offset := v\<rparr>
            in (valid_section, s))
         else (False, s))"

definition read_stride :: "json \<Rightarrow> real \<Rightarrow> WalkingManager \<Rightarrow> bool \<times> WalkingManager" where
  "read_stride walking_data uninit s =
     (let (has_stride, stride_section) = assign_section walking_data ''stride'' JNull
      in if has_stride then
           (let valid_section = True;
                max_rotation_double = uninit;
                (ok, v) = assign_val stride_section ''max_x'' (fst (max_stride s));
                valid_section = (valid_section \<and> ok);
                s = s\<lparr>max_stride := (v, snd (max_stride s))\<rparr>;
                (ok, v) = assign_val stride_section ''max_y'' (snd (max_stride s));
                valid_section = (valid_section \<and> ok);
                s = s\<lparr>max_stride := (fst (max_stride s), v)\<rparr>;
                (ok, max_rotation_double) =
                  assign_val stride_section ''max_a'' max_rotation_double;
                valid_section = (valid_section \<and> ok);
                s = s\<lparr>max_rotation := make_degree max_rotation_double\<rparr>
            in (valid_section, s))
         else (False, s))"

text \<open>
  The whole function: the four blocks, the \<open>throw\<close> of line 146, then the three
  collaborators are configured. A failed call is \<open>Inl\<close> of the error with the controller as
  the \<open>throw\<close> leaves it.
\<close>

definition set_config ::
  "json \<Rightarrow> json \<Rightarrow> real \<Rightarrow> WalkingManager \<Rightarrow> error \<times> WalkingManager + WalkingManager" where
  "set_config walking_data kinematic_data uninit s =
     (let valid_config = True;
          (valid_section, s) = read_timing walking_data s;
          valid_config = (if \<not> valid_section then False else valid_config);
          (valid_section, s) = read_posture walking_data s;
          valid_config = (if \<not> valid_section then False else valid_config);
          (valid_section, s) = read_offset walking_data s;
          valid_config = (if \<not> valid_section then False else valid_config);
          (valid_section, s) = read_stride walking_data uninit s;
          valid_config = (if \<not> valid_section then False else valid_config)
      in if \<not> valid_config then Inl (ConfigError, s)
         else
           (let s = s\<lparr>planner_parameters :=
                       (max_stride s, max_rotation s, plan_period s, foot_y_offset s)\<rparr>;
                s = s\<lparr>lipm_parameters := (com_height s, time_step s, com_period s)\<rparr>
            in case Kinematics_set_config kinematic_data (kinematics s) of
                 Inl e \<Rightarrow> Inl (e, s)
               | Inr k \<Rightarrow> Inr (s\<lparr>kinematics := k\<rparr>)))"

text \<open>\<open>set_goal\<close>, lines 166 to 172: the branch of the sentinel position.\<close>

definition stop_request :: "WalkingManager \<Rightarrow> WalkingManager" where
  "stop_request s =
     (let s = (if length (foot_steps s) \<le> 4 then s\<lparr>status := START\<rparr> else s)
      in if length (foot_steps s) > 3 then s\<lparr>foot_steps := tl (foot_steps s)\<rparr> else s)"

text \<open>
  \<open>set_goal\<close>, lines 174 to 192: the branch of a goal. \<open>foot_steps[1]\<close> is read only when
  the queue holds more than two entries.
\<close>

definition goal_request ::
  "planner \<Rightarrow> real \<times> real \<Rightarrow> real \<Rightarrow> WalkingManager \<Rightarrow> WalkingManager" where
  "goal_request plan goal_position goal_orientation s =
     (let (current_position, current_orientation) =
            (if length (foot_steps s) > 2 then
               (let y_offset =
                      (if status s \<noteq> START
                       then (if next_support s = LEFT_FOOT then - foot_y_offset s
                             else foot_y_offset s)
                       else 0);
                    f1 = foot_steps s ! 1
                in ((fst (position f1), snd (position f1) + y_offset), rotation f1))
             else ((0, 0), 0))
      in s\<lparr>foot_steps :=
             plan (planner_parameters s) goal_position goal_orientation current_position
               current_orientation (next_support s) (status s) (foot_steps s),
           status := WALKING\<rparr>)"

text \<open>
  \<open>set_goal\<close>, lines 195 to 228: the plan goes to the trajectory generator and the swing
  foot gets its target. \<open>foot_steps[0]\<close> is read in every case, \<open>foot_steps[1]\<close> inside the
  two branches on the first footstep's support foot.
\<close>

definition retarget :: "lipm \<Rightarrow> WalkingManager \<Rightarrow> error + WalkingManager" where
  "retarget lipm_update s =
     (case foot_steps s of
        [] \<Rightarrow> Inl OutOfBounds
      | f0 # rest \<Rightarrow>
          (let s = s\<lparr>com_trajectory :=
                      lipm_update (lipm_parameters s) (time f0) (foot_steps s)
                        (com_trajectory s)\<rparr>
           in if support_foot f0 = LEFT_FOOT then
                (case rest of
                   [] \<Rightarrow> Inl OutOfBounds
                 | f1 # _ \<Rightarrow>
                     (let target =
                            (if support_foot f1 = BOTH_FEET
                             then (fst (position f1), snd (position f1), rotation f1)
                             else (fst (position f1), snd (position f1) + foot_y_offset s,
                                   rotation f1))
                      in if step_frames s = 0 then Inl NotFinite
                         else Inr (s\<lparr>right_foot_target := target,
                                right_offset_delta :=
                                  vec_div (vec_sub target (right_offset s)) (step_frames s),
                                next_support := RIGHT_FOOT,
                                walk_rotation := rotation f0\<rparr>)))
              else if support_foot f0 = RIGHT_FOOT then
                (case rest of
                   [] \<Rightarrow> Inl OutOfBounds
                 | f1 # _ \<Rightarrow>
                     (let target =
                            (if support_foot f1 = BOTH_FEET
                             then (fst (position f1), snd (position f1), rotation f1)
                             else (fst (position f1), snd (position f1) - foot_y_offset s,
                                   rotation f1))
                      in if step_frames s = 0 then Inl NotFinite
                         else Inr (s\<lparr>left_foot_target := target,
                                left_offset_delta :=
                                  vec_div (vec_sub target (left_offset s)) (step_frames s),
                                next_support := LEFT_FOOT,
                                walk_rotation := rotation f0\<rparr>)))
              else Inr (s\<lparr>walk_rotation := rotation f0\<rparr>)))"

definition set_goal ::
  "planner \<Rightarrow> lipm \<Rightarrow> real \<times> real \<Rightarrow> real \<Rightarrow> WalkingManager \<Rightarrow> error + WalkingManager" where
  "set_goal plan lipm_update goal_position goal_orientation s =
     (let s = (if \<not> initialized s then s\<lparr>initialized := True\<rparr> else s);
          s = (if fst goal_position = - 1 \<and> snd goal_position = - 1 then stop_request s
               else goal_request plan goal_position goal_orientation s)
      in retarget lipm_update s)"

definition stop :: "planner \<Rightarrow> lipm \<Rightarrow> WalkingManager \<Rightarrow> error + WalkingManager" where
  "stop plan lipm_update s = set_goal plan lipm_update (- 1, - 1) 0 s"

text \<open>
  \<open>update_joints\<close>, lines 257 to 271 for the right foot and 274 to 288 for the left: the
  lift and the offset of the swing foot. In the raising branch \<open>ssp_duration\<close> is positive.
  In the lowering branch it is zero when the window is empty: the quotient
  \<open>foot_height / ssp_duration\<close> is then \<open>+infinity\<close> for a positive \<open>foot_height\<close>, the
  difference \<open>-infinity\<close>, and \<open>std::max\<close> makes the lift 0. For \<open>foot_height = 0\<close> the
  quotient is NaN and so is the lift that \<open>std::max\<close> returns, and for a negative
  \<open>foot_height\<close> the lift is \<open>+infinity\<close>; neither is a real number, and the result is
  \<open>NotFinite\<close>. The sums and differences are exact here and rounded in the code, so a lift
  that several ticks of lowering bring to 0 here may be left at a rounding residue there.
\<close>

definition swing_foot ::
  "real \<Rightarrow> real \<Rightarrow> real \<Rightarrow> real \<Rightarrow> real \<Rightarrow> real \<Rightarrow> vec3 \<Rightarrow> vec3 \<Rightarrow> vec3 \<Rightarrow> error + real \<times> vec3" where
  "swing_foot height ssp_start ssp_end ssp_duration diff up offset offset_delta target =
     (let offset' =
            (if diff > ssp_start
             then (if diff > ssp_start + ssp_duration * 2 then target
                   else vec_add offset offset_delta)
             else offset)
      in if ssp_start < diff \<and> diff \<le> ssp_end then Inr (up + height / ssp_duration, offset')
         else if up > 0 then
           (if ssp_duration = 0
            then (if 0 < height then Inr (0, offset') else Inl NotFinite)
            else Inr (max (up - height / ssp_duration) 0, offset'))
         else Inr (up, offset'))"

text \<open>Lines 291 to 307: the two targets handed to the solver.\<close>

definition foot_targets :: "real \<times> real \<Rightarrow> WalkingManager \<Rightarrow> Foot \<times> Foot" where
  "foot_targets com s =
     (let (lx, ly, la) = left_offset s;
          (rx, ry, ra) = right_offset s;
          left_foot_pose = (lx - fst com, ly - snd com, la);
          right_foot_pose = (rx - fst com, ry - snd com, ra);
          (ilx, ily, ilz) = initial_left_foot s;
          (irx, iry, irz) = initial_right_foot s;
          left_foot = \<lparr>foot_x = fst left_foot_pose + ilx,
                       foot_y = fst (snd left_foot_pose) + ily,
                       foot_z = left_up s + ilz,
                       yaw = walk_rotation s - snd (snd left_foot_pose)\<rparr>;
          right_foot = \<lparr>foot_x = fst right_foot_pose + irx,
                        foot_y = fst (snd right_foot_pose) + iry,
                        foot_z = right_up s + irz,
                        yaw = walk_rotation s - snd (snd right_foot_pose)\<rparr>
      in (left_foot, right_foot))"

text \<open>Lines 243, 244 and 251 to 253: the step's length in ticks and its single-support window.\<close>

definition step_period :: "FootStep \<Rightarrow> FootStep \<Rightarrow> WalkingManager \<Rightarrow> real" where
  "step_period f0 f1 s = c_round ((time f1 - time f0) / time_step s)"

definition ssp_start :: "WalkingManager \<Rightarrow> real" where
  "ssp_start s = c_round (dsp_duration s / (2 * time_step s))"

definition ssp_end :: "FootStep \<Rightarrow> FootStep \<Rightarrow> WalkingManager \<Rightarrow> real" where
  "ssp_end f0 f1 s = c_round (step_period f0 f1 s / 2)"

definition ssp_duration :: "FootStep \<Rightarrow> FootStep \<Rightarrow> WalkingManager \<Rightarrow> real" where
  "ssp_duration f0 f1 s = ssp_end f0 f1 s - ssp_start s"

text \<open>
  \<open>update_joints\<close>, lines 241 to 289: one CoM sample is popped (\<open>pop_front\<close> on an empty
  sequence is \<open>OutOfBounds\<close>), the orientation advances, the swing foot moves. \<open>diff\<close> is
  computed from the sequence after the pop. The result is the popped sample and the
  controller.
\<close>

definition swing_step :: "WalkingManager \<Rightarrow> error + (real \<times> real) \<times> WalkingManager" where
  "swing_step s =
     (case com_trajectory s of
        [] \<Rightarrow> Inl OutOfBounds
      | com # remaining \<Rightarrow>
          (let s = s\<lparr>com_trajectory := remaining\<rparr> in
           case foot_steps s of
             f0 # f1 # _ \<Rightarrow>
               if time_step s = 0 \<or> step_period f0 f1 s = 0 then Inl NotFinite
               else
                 (let s = s\<lparr>walk_rotation :=
                            walk_rotation s + (rotation f1 - rotation f0) / step_period f0 f1 s\<rparr>;
                      diff = step_period f0 f1 s - real (length (com_trajectory s))
                  in if support_foot f0 = LEFT_FOOT then
                       (case swing_foot (foot_height s) (ssp_start s) (ssp_end f0 f1 s)
                               (ssp_duration f0 f1 s) diff (right_up s) (right_offset s)
                               (right_offset_delta s) (right_foot_target s) of
                          Inl e \<Rightarrow> Inl e
                        | Inr (up, offset) \<Rightarrow> Inr (com, s\<lparr>right_up := up, right_offset := offset\<rparr>))
                     else if support_foot f0 = RIGHT_FOOT then
                       (case swing_foot (foot_height s) (ssp_start s) (ssp_end f0 f1 s)
                               (ssp_duration f0 f1 s) diff (left_up s) (left_offset s)
                               (left_offset_delta s) (left_foot_target s) of
                          Inl e \<Rightarrow> Inl e
                        | Inr (up, offset) \<Rightarrow> Inr (com, s\<lparr>left_up := up, left_offset := offset\<rparr>))
                     else Inr (com, s))
           | _ \<Rightarrow> Inl OutOfBounds))"

text \<open>
  \<open>update_joints\<close>, lines 316 to 322: the loop copies \<open>angles[id].degree()\<close> from the
  solver's array into every joint of the published array.
\<close>

definition copy_angles :: "WalkingManager \<Rightarrow> WalkingManager" where
  "copy_angles s =
     s\<lparr>joints := map (\<lambda>(id, p). (id, degree (angles (kinematics s) id))) (joints s)\<rparr>"

text \<open>
  \<open>update_joints\<close>, lines 291 to 322: the solver is called inside \<open>try\<close>. The handler takes
  a \<open>std::exception\<close>, writes to \<open>std::cerr\<close> and goes on to the copy loop; any other
  object passes it and leaves \<open>update_joints\<close> before the loop. The solver is an argument,
  so that a tick can be run with a solver that throws; the solver member is in the state
  the call left it in.
\<close>

definition publish :: "solver \<Rightarrow> real \<times> real \<Rightarrow> WalkingManager \<Rightarrow> error + WalkingManager" where
  "publish solver com s =
     (let (left_foot, right_foot) = foot_targets com s
      in case solver (kinematics s) left_foot right_foot of
           Returned k \<Rightarrow> Inr (copy_angles (s\<lparr>kinematics := k\<rparr>))
         | Threw t k \<Rightarrow>
             (case t of
                StdException \<Rightarrow> Inr (copy_angles (s\<lparr>kinematics := k\<rparr>))
              | OtherObject \<Rightarrow> Inl SolverFault))"

text \<open>
  \<open>update_joints\<close>, lines 237 to 239: with no CoM sample left the tick begins with
  \<open>stop()\<close>.
\<close>

definition tick_entry :: "planner \<Rightarrow> lipm \<Rightarrow> WalkingManager \<Rightarrow> error + WalkingManager" where
  "tick_entry plan lipm_update s =
     (if com_trajectory s = [] then stop plan lipm_update s else Inr s)"

text \<open>The value of \<open>diff\<close> in a tick that pops a sample from the sequence of \<open>s\<close>.\<close>

definition tick_diff :: "FootStep \<Rightarrow> FootStep \<Rightarrow> WalkingManager \<Rightarrow> real" where
  "tick_diff f0 f1 s = step_period f0 f1 s - real (length (tl (com_trajectory s)))"

text \<open>\<open>update_joints\<close> as a whole: lines 233 to 235, then the three parts above.\<close>

definition update_joints_with ::
  "solver \<Rightarrow> planner \<Rightarrow> lipm \<Rightarrow> WalkingManager \<Rightarrow> error + WalkingManager" where
  "update_joints_with solver plan lipm_update s =
     (if \<not> initialized s then Inr s
      else
        case tick_entry plan lipm_update s of
          Inl e \<Rightarrow> Inl e
        | Inr s \<Rightarrow>
            (case swing_step s of
               Inl e \<Rightarrow> Inl e
             | Inr (com, s) \<Rightarrow> publish solver com s))"

definition update_joints :: "planner \<Rightarrow> lipm \<Rightarrow> WalkingManager \<Rightarrow> error + WalkingManager" where
  "update_joints plan lipm_update s =
     update_joints_with (\<lambda>k l r. Returned (solve_inverse_kinematics k l r)) plan lipm_update s"

section \<open>Runs of the controller\<close>

text \<open>What goals and ticks make of a controller while its configuration stays.\<close>

inductive evolves :: "WalkingManager \<Rightarrow> WalkingManager \<Rightarrow> bool" where
  stay: "evolves s s"
| by_goal: "evolves s s1 \<Longrightarrow> set_goal plan lipm_update g a s1 = Inr s2 \<Longrightarrow> evolves s s2"
| by_tick: "evolves s s1 \<Longrightarrow> update_joints plan lipm_update s1 = Inr s2 \<Longrightarrow> evolves s s2"

text \<open>\<open>n\<close> ticks in a row, stopping at the first that fails.\<close>

fun ticks :: "nat \<Rightarrow> planner \<Rightarrow> lipm \<Rightarrow> WalkingManager \<Rightarrow> error + WalkingManager" where
  "ticks 0 plan lipm_update s = Inr s"
| "ticks (Suc n) plan lipm_update s =
     (case update_joints plan lipm_update s of
        Inl e \<Rightarrow> Inl e
      | Inr s' \<Rightarrow> ticks n plan lipm_update s')"

section \<open>Definitions for the statements\<close>

text \<open>
  A target at the origin of the solver's frame, with no yaw.
\<close>

definition zero_foot :: Foot where
  "zero_foot = \<lparr>foot_x = 0, foot_y = 0, foot_z = 0, yaw = 0\<rparr>"

text \<open>
  The footstep queue as the first part of \<open>set_goal\<close> (lines 161 to 193) leaves it: popped or
  kept by a stop request, replaced by the planner for a goal.
\<close>

definition queue_after_branch :: "planner \<Rightarrow> real \<times> real \<Rightarrow> real \<Rightarrow> WalkingManager \<Rightarrow> FootStep list" where
  "queue_after_branch plan g a s =
     (if fst g = - 1 \<and> snd g = - 1 then foot_steps (stop_request s)
      else foot_steps (goal_request plan g a s))"

text \<open>
  What a field holds after \<open>set_config\<close> has gone over a document: the document's value
  when the group and the key can be read, the previous value otherwise. \<open>max_rotation\<close> is
  assigned from the local \<open>max_rotation_double\<close> whenever the \<open>stride\<close> group is present.
  \<open>stored_fields\<close> is the controller after the four blocks.
\<close>

definition read_field :: "json \<Rightarrow> string \<Rightarrow> string \<Rightarrow> real \<Rightarrow> real" where
  "read_field doc grp key old =
     (case json_find doc grp of None \<Rightarrow> old | Some sec \<Rightarrow> snd (assign_val sec key old))"

definition read_rotation :: "json \<Rightarrow> real \<Rightarrow> real \<Rightarrow> real" where
  "read_rotation doc uninit old =
     (case json_find doc ''stride'' of None \<Rightarrow> old
      | Some sec \<Rightarrow> make_degree (snd (assign_val sec ''max_a'' uninit)))"

definition stored_fields :: "json \<Rightarrow> real \<Rightarrow> WalkingManager \<Rightarrow> WalkingManager" where
  "stored_fields w uninit s =
     s\<lparr>dsp_duration := read_field w ''timing'' ''dsp_duration'' (dsp_duration s),
       plan_period := read_field w ''timing'' ''plan_period'' (plan_period s),
       com_period := read_field w ''timing'' ''com_period'' (com_period s),
       step_frames := read_field w ''timing'' ''step_frames'' (step_frames s),
       com_height := read_field w ''posture'' ''com_height'' (com_height s),
       foot_height := read_field w ''posture'' ''foot_height'' (foot_height s),
       feet_lateral := read_field w ''posture'' ''feet_lateral'' (feet_lateral s),
       foot_y_offset := read_field w ''offset'' ''foot_y_offset'' (foot_y_offset s),
       max_stride := (read_field w ''stride'' ''max_x'' (fst (max_stride s)),
                      read_field w ''stride'' ''max_y'' (snd (max_stride s))),
       max_rotation := read_rotation w uninit (max_rotation s)\<rparr>"

text \<open>
  The controller after the copy loop, when the solver call returned or threw a
  \<open>std::exception\<close>: what \<open>publish\<close> returns when it returns.
\<close>

definition published :: "solver \<Rightarrow> real \<times> real \<Rightarrow> WalkingManager \<Rightarrow> WalkingManager" where
  "published solver com s =
     copy_angles
       (s\<lparr>kinematics :=
            solver_state (solver (kinematics s) (fst (foot_targets com s)) (snd (foot_targets com s)))\<rparr>)"

text \<open>
  The published array agrees with the solver's angle array: every joint holds the solver's
  angle for it, in degrees.
\<close>

definition joints_in_sync :: "WalkingManager \<Rightarrow> bool" where
  "joints_in_sync s \<longleftrightarrow> (\<forall>(j, p) \<in> set (joints s). p = degree (angles (kinematics s) j))"

text \<open>
  A footstep's pose as a \<open>Matrix<1, 3>\<close>, as it is and with a lateral shift.
\<close>

definition raw_pose :: "FootStep \<Rightarrow> vec3" where
  "raw_pose f = (fst (position f), snd (position f), rotation f)"

definition shifted_pose :: "FootStep \<Rightarrow> real \<Rightarrow> vec3" where
  "shifted_pose f d = (fst (position f), snd (position f) + d, rotation f)"

text \<open>
  The members of the swing foot, by the support foot of the first footstep: the right
  foot swings while the left supports.
\<close>

definition swing_lift :: "support \<Rightarrow> WalkingManager \<Rightarrow> real" where
  "swing_lift stance s = (if stance = LEFT_FOOT then right_up s else left_up s)"

definition swing_offset :: "support \<Rightarrow> WalkingManager \<Rightarrow> vec3" where
  "swing_offset stance s = (if stance = LEFT_FOOT then right_offset s else left_offset s)"

definition swing_delta :: "support \<Rightarrow> WalkingManager \<Rightarrow> vec3" where
  "swing_delta stance s = (if stance = LEFT_FOOT then right_offset_delta s else left_offset_delta s)"

definition swing_target :: "support \<Rightarrow> WalkingManager \<Rightarrow> vec3" where
  "swing_target stance s = (if stance = LEFT_FOOT then right_foot_target s else left_foot_target s)"

text \<open>
  What a tick that does not begin with \<open>stop()\<close> leaves as it is.
\<close>

definition same_settings :: "WalkingManager \<Rightarrow> WalkingManager \<Rightarrow> bool" where
  "same_settings s s' \<longleftrightarrow>
     foot_steps s' = foot_steps s \<and> time_step s' = time_step s \<and> dsp_duration s' = dsp_duration s
     \<and> foot_height s' = foot_height s \<and> step_frames s' = step_frames s
     \<and> left_foot_target s' = left_foot_target s \<and> right_foot_target s' = right_foot_target s
     \<and> left_offset_delta s' = left_offset_delta s \<and> right_offset_delta s' = right_offset_delta s
     \<and> initialized s' = initialized s"

section \<open>Concrete inputs\<close>

text \<open>
  A robot with two arm joints, a configuration with the double-support duration, the
  frames per step and the lift height left open, a planner that always answers with the
  same four footsteps \<open>t\<close> seconds apart, and a trajectory generator that always answers with
  \<open>n\<close> samples at the origin.
\<close>

definition demo_joint_list :: "JointId list" where
  "demo_joint_list =
     [OTHER_JOINT 1, OTHER_JOINT 2, LEFT_HIP_YAW, LEFT_HIP_ROLL, LEFT_HIP_PITCH, LEFT_UPPER_KNEE,
      LEFT_LOWER_KNEE, LEFT_ANKLE_PITCH, LEFT_ANKLE_ROLL, RIGHT_HIP_YAW, RIGHT_HIP_ROLL,
      RIGHT_HIP_PITCH, RIGHT_UPPER_KNEE, RIGHT_LOWER_KNEE, RIGHT_ANKLE_PITCH, RIGHT_ANKLE_ROLL,
      NECK_YAW, NECK_PITCH]"

definition demo_document :: "real \<Rightarrow> real \<Rightarrow> real \<Rightarrow> json" where
  "demo_document dsp frames height =
     JObject
       [(''timing'', JObject [(''dsp_duration'', JNumber dsp), (''plan_period'', JNumber (2 / 25)),
                             (''com_period'', JNumber 1), (''step_frames'', JNumber frames)]),
        (''posture'', JObject [(''com_height'', JNumber (1 / 5)), (''foot_height'', JNumber height),
                              (''feet_lateral'', JNumber (1 / 10))]),
        (''offset'', JObject [(''foot_y_offset'', JNumber (1 / 20))]),
        (''stride'', JObject [(''max_x'', JNumber (1 / 20)), (''max_y'', JNumber (1 / 50)),
                             (''max_a'', JNumber 20)])]"

definition demo_kinematic :: json where
  "demo_kinematic =
     JObject
       [(''leg'', JObject [(''ankle_length'', JNumber (3 / 100)), (''calf_length'', JNumber (1 / 10)),
                          (''knee_length'', JNumber (3 / 100)), (''thigh_length'', JNumber (1 / 10))]),
        (''offset'', JObject [(''x'', JNumber 0), (''y'', JNumber (1 / 20))])]"

definition demo_configured :: "real \<Rightarrow> real \<Rightarrow> real \<Rightarrow> WalkingManager" where
  "demo_configured dsp frames height =
     projr (set_config (demo_document dsp frames height) demo_kinematic 0
              (WalkingManager_init demo_joint_list 0))"

definition demo_step :: "support \<Rightarrow> real \<Rightarrow> real \<Rightarrow> FootStep" where
  "demo_step stance x t = \<lparr>position = (x, 0), rotation = 0, time = t, support_foot = stance\<rparr>"

definition demo_steps :: "real \<Rightarrow> FootStep list" where
  "demo_steps t =
     [demo_step LEFT_FOOT 0 0, demo_step RIGHT_FOOT (1 / 20) t,
      demo_step LEFT_FOOT (1 / 10) (2 * t), demo_step BOTH_FEET (1 / 10) (3 * t)]"

definition demo_plan :: "real \<Rightarrow> planner" where
  "demo_plan t prm goal_position goal_orientation current_position current_orientation
     next_sup st queue = demo_steps t"

definition demo_lipm :: "nat \<Rightarrow> lipm" where
  "demo_lipm n prm t queue old = replicate n (0, 0)"

definition demo_walking :: "real \<Rightarrow> real \<Rightarrow> real \<Rightarrow> real \<Rightarrow> nat \<Rightarrow> WalkingManager" where
  "demo_walking dsp frames height t n =
     projr (set_goal (demo_plan t) (demo_lipm n) (1 / 10, 0) 0 (demo_configured dsp frames height))"

text \<open>
  The solver after reading \<open>demo_kinematic\<close>.
\<close>

definition demo_kinematics :: Kinematics where
  "demo_kinematics =
     Kinematics_init\<lparr>ankle_length := 3 / 100, calf_length := 1 / 10, knee_length := 3 / 100,
                     thigh_length := 1 / 10, x_offset := 0, y_offset := 1 / 20\<rparr>"

text \<open>
  Walking states: steps of 8 ticks with a double-support duration of 4 ticks, and steps of
  3 ticks with none. \<open>demo_partial\<close> is a walking document with the \<open>timing\<close> group only.
\<close>

definition demo_stride :: WalkingManager where
  "demo_stride = demo_walking (1 / 25) 4 (1 / 50) (2 / 25) 8"

definition demo_short :: "real \<Rightarrow> WalkingManager" where
  "demo_short height = demo_walking 0 4 height (3 / 100) 3"

definition demo_partial :: json where
  "demo_partial =
     JObject
       [(''timing'', JObject [(''dsp_duration'', JNumber (1 / 50)), (''plan_period'', JNumber (1 / 5)),
                             (''com_period'', JNumber 1), (''step_frames'', JNumber 20)])]"

text \<open>
  The configured controller before its first goal, a planner that answers with a single
  footstep, and the controller after a goal planned that way with both feet supporting.
\<close>

definition demo_start :: WalkingManager where
  "demo_start = demo_configured (1 / 25) 4 (1 / 50)"

definition demo_only :: "support \<Rightarrow> planner" where
  "demo_only stance prm goal_position goal_orientation current_position current_orientation
     next_sup st queue =
       [demo_step stance 0 0]"

definition demo_standing :: WalkingManager where
  "demo_standing = projr (set_goal (demo_only BOTH_FEET) (demo_lipm 8) (1 / 10, 0) 0 demo_start)"

text \<open>
  \<open>demo_stride\<close> one tick later, and \<open>demo_short\<close> two ticks later.
\<close>

definition demo_ticked :: WalkingManager where
  "demo_ticked = projr (update_joints (demo_plan (2 / 25)) (demo_lipm 8) demo_stride)"

definition demo_raised :: WalkingManager where
  "demo_raised = projr (ticks 2 (demo_plan (3 / 100)) (demo_lipm 3) (demo_short (1 / 50)))"

text \<open>
  \<open>demo_raised\<close> with a double-support duration of 4 ticks, which makes the window of its
  steps of 3 ticks empty.
\<close>

definition demo_narrowed :: WalkingManager where
  "demo_narrowed = demo_raised\<lparr>dsp_duration := 1 / 25\<rparr>"





section \<open>Goals and stop requests\<close>

lemma retarget_frame:
  "retarget l s = Inr s' \<Longrightarrow> foot_steps s' = foot_steps s \<and> status s' = status s \<and> initialized s' = initialized s
     \<and> left_up s' = left_up s \<and> right_up s' = right_up s \<and> joints s' = joints s \<and> kinematics s' = kinematics s
     \<and> foot_height s' = foot_height s \<and> left_offset s' = left_offset s \<and> right_offset s' = right_offset s"
  by (auto simp: retarget_def Let_def split: list.splits if_splits)

lemma retarget_out_of_bounds:
  "retarget l s = Inl OutOfBounds \<longleftrightarrow>
     foot_steps s = [] \<or> (length (foot_steps s) = 1 \<and> support_foot (hd (foot_steps s)) \<noteq> BOTH_FEET)"
  apply (cases "foot_steps s")
   apply (simp add: retarget_def)
  subgoal for f0 rest
    apply (cases rest; cases "support_foot f0")
    by (auto simp: retarget_def Let_def)
  done

lemma stop_request_status:
  "status (stop_request s) = (if length (foot_steps s) \<le> 4 then START else status s)"
  by (simp add: stop_request_def Let_def)

lemma stop_request_queue:
  "foot_steps (stop_request s) = (if length (foot_steps s) > 3 then tl (foot_steps s) else foot_steps s)"
  by (simp add: stop_request_def Let_def)

lemma mark_initialized:
  "(if \<not> initialized s then s\<lparr>initialized := True\<rparr> else s) = s\<lparr>initialized := True\<rparr>"
  by (cases s) auto

lemma set_goal_sentinel:
  "set_goal plan l (- 1, - 1) a s = retarget l (stop_request (s\<lparr>initialized := True\<rparr>))"
  unfolding set_goal_def Let_def mark_initialized by simp

lemma set_goal_other:
  assumes "\<not> (fst g = - 1 \<and> snd g = - 1)"
  shows "set_goal plan l g a s = retarget l (goal_request plan g a (s\<lparr>initialized := True\<rparr>))"
  unfolding set_goal_def Let_def mark_initialized if_not_P [OF assms] by (rule refl)

text \<open>
  Claim C4. A call of \<open>set_goal\<close> with the sentinel position \<open>(-1, -1)\<close> runs
  \<open>stop_request\<close>: a queue of at most 4 footsteps resets the status to \<open>START\<close> (a longer
  one leaves the status), a queue of more than 3 footsteps loses exactly its front entry
  (a shorter one is left as it is), so a queue of exactly 4 gets both effects; and when
  \<open>set_goal\<close> returns, its result has this status and this queue.
\<close>

theorem stop_request_resets_and_pops:
  "(length (foot_steps s) \<le> 4 \<longrightarrow> status (stop_request s) = START)
   \<and> (4 < length (foot_steps s) \<longrightarrow> status (stop_request s) = status s)
   \<and> (3 < length (foot_steps s) \<longrightarrow>
        foot_steps (stop_request s) = tl (foot_steps s)
        \<and> length (foot_steps (stop_request s)) = length (foot_steps s) - 1)
   \<and> (length (foot_steps s) \<le> 3 \<longrightarrow> foot_steps (stop_request s) = foot_steps s)
   \<and> (\<forall>s'. set_goal plan lipm_update (- 1, - 1) a s = Inr s' \<longrightarrow>
        status s' = status (stop_request s) \<and> foot_steps s' = foot_steps (stop_request s))"
proof -
  have "status s' = status (stop_request s) \<and> foot_steps s' = foot_steps (stop_request s)"
    if "set_goal plan lipm_update (- 1, - 1) a s = Inr s'" for s'
  proof -
    from that have "retarget lipm_update (stop_request (s\<lparr>initialized := True\<rparr>)) = Inr s'"
      by (simp add: set_goal_sentinel)
    from retarget_frame [OF this] show ?thesis
      by (simp add: stop_request_status stop_request_queue)
  qed
  then show ?thesis
    by (simp add: stop_request_status stop_request_queue)
qed

section \<open>The solver\<close>

lemma sqrt_argument_nonneg: "0 \<le> sqrt_argument x2 y2 z2"
  by (simp add: sqrt_argument_def)

lemma clamped_ratio_range:
  "thigh_length k \<noteq> 0 \<Longrightarrow> \<exists>c. clamped_ratio k len = Some c \<and> - 1 \<le> c \<and> c \<le> 1"
  by (simp add: clamped_ratio_def ieee_div_def)

lemma leg_angles_finite:
  assumes "thigh_length k \<noteq> 0"
  shows "\<exists>a b c. leg_angles k x2 y2 z2 = (Some a, Some b, Some c)"
proof -
  obtain c where c: "clamped_ratio k (hypot x2 (sqrt (sqrt_argument x2 y2 z2) - knee_length k)) = Some c" "- 1 \<le> c" "c \<le> 1"
    using clamped_ratio_range [OF assms] by blast
  show ?thesis
    using c sqrt_argument_nonneg [of x2 y2 z2]
    by (simp add: leg_angles_def c_sqrt_def c_arccos_def Let_def)
qed

lemma solve_left_thigh: "thigh_length (solve_left k l) = thigh_length k"
  by (simp add: solve_left_def Let_def split: prod.splits)

lemma solve_left_finite:
  assumes "thigh_length k \<noteq> 0"
  shows "\<forall>j \<in> {LEFT_HIP_YAW, LEFT_HIP_ROLL, LEFT_HIP_PITCH, LEFT_UPPER_KNEE, LEFT_LOWER_KNEE,
      LEFT_ANKLE_PITCH, LEFT_ANKLE_ROLL}. angles (solve_left k l) j \<noteq> None"
proof -
  obtain x2 y2 z2 where t: "left_target k l = (x2, y2, z2)" by (cases "left_target k l")
  obtain a b c where "leg_angles k x2 y2 z2 = (Some a, Some b, Some c)"
    using leg_angles_finite [OF assms] by blast
  with t show ?thesis by (simp add: solve_left_def neg_angle_def)
qed

lemma solve_right_finite:
  assumes "thigh_length k \<noteq> 0"
  shows "\<forall>j \<in> {RIGHT_HIP_YAW, RIGHT_HIP_ROLL, RIGHT_HIP_PITCH, RIGHT_UPPER_KNEE, RIGHT_LOWER_KNEE,
      RIGHT_ANKLE_PITCH, RIGHT_ANKLE_ROLL}. angles (solve_right k r) j \<noteq> None"
proof -
  obtain x2 y2 z2 where t: "right_target k r = (x2, y2, z2)" by (cases "right_target k r")
  obtain a b c where "leg_angles k x2 y2 z2 = (Some a, Some b, Some c)"
    using leg_angles_finite [OF assms] by blast
  with t show ?thesis by (simp add: solve_right_def neg_angle_def)
qed

lemma solve_right_keeps_left:
  "j \<in> {LEFT_HIP_YAW, LEFT_HIP_ROLL, LEFT_HIP_PITCH, LEFT_UPPER_KNEE, LEFT_LOWER_KNEE,
      LEFT_ANKLE_PITCH, LEFT_ANKLE_ROLL} \<Longrightarrow> angles (solve_right k r) j = angles k j"
  by (auto simp: solve_right_def Let_def split: prod.splits)

text \<open>
  Claim C3, amended. With a thigh length other than zero, for every pair of targets the
  solver stores a finite angle (not NaN) in each of the fourteen leg joints it writes; the
  argument of the square root is never negative, and the ratio handed to the arc cosine is
  a number between \<open>-1\<close> and \<open>1\<close>. No bound on the target is assumed.
\<close>

theorem ik_finite:
  assumes "thigh_length k \<noteq> 0"
  shows "(\<forall>j \<in> set leg_joints. angles (solve_inverse_kinematics k l r) j \<noteq> None)
     \<and> 0 \<le> sqrt_argument x2 y2 z2
     \<and> (\<exists>c. clamped_ratio k len = Some c \<and> - 1 \<le> c \<and> c \<le> 1)"
proof -
  have t: "thigh_length (solve_left k l) \<noteq> 0" using assms by (simp add: solve_left_thigh)
  have "angles (solve_inverse_kinematics k l r) j \<noteq> None" if "j \<in> set leg_joints" for j
    using that solve_left_finite [OF assms, of l] solve_right_finite [OF t, of r]
      solve_right_keeps_left [of j "solve_left k l" r]
    unfolding solve_inverse_kinematics_def leg_joints_def
    by auto
  then show ?thesis
    using sqrt_argument_nonneg clamped_ratio_range [OF assms] by blast
qed

section \<open>Bounds of the footstep queue\<close>

lemma goal_request_initialized:
  "goal_request plan g a (s\<lparr>initialized := True\<rparr>) = (goal_request plan g a s)\<lparr>initialized := True\<rparr>"
  by (simp add: goal_request_def Let_def case_prod_beta)

lemma set_goal_out_of_bounds_iff:
  "set_goal plan lipm_update g a s = Inl OutOfBounds \<longleftrightarrow>
     queue_after_branch plan g a s = []
     \<or> (length (queue_after_branch plan g a s) = 1
        \<and> support_foot (hd (queue_after_branch plan g a s)) \<noteq> BOTH_FEET)"
proof (cases "fst g = - 1 \<and> snd g = - 1")
  case True
  then have g: "g = (- 1, - 1)" by (cases g) simp
  show ?thesis
    unfolding g set_goal_sentinel retarget_out_of_bounds queue_after_branch_def
    by (simp add: stop_request_queue)
next
  case False
  show ?thesis
    unfolding set_goal_other [OF False] retarget_out_of_bounds queue_after_branch_def
      goal_request_initialized if_not_P [OF False]
    by simp
qed

lemma set_goal_queue:
  "set_goal plan l g a s = Inr s' \<Longrightarrow> foot_steps s' = queue_after_branch plan g a s \<and> initialized s'"
proof (cases "fst g = - 1 \<and> snd g = - 1")
  case True
  assume a: "set_goal plan l g a s = Inr s'"
  from True have g: "g = (- 1, - 1)" by (cases g) simp
  from a have "retarget l (stop_request (s\<lparr>initialized := True\<rparr>)) = Inr s'"
    unfolding g set_goal_sentinel .
  from retarget_frame [OF this] show ?thesis
    by (simp add: queue_after_branch_def g stop_request_queue stop_request_def Let_def)
next
  case False
  assume a: "set_goal plan l g a s = Inr s'"
  then have "retarget l (goal_request plan g a (s\<lparr>initialized := True\<rparr>)) = Inr s'"
    unfolding set_goal_other [OF False] .
  from retarget_frame [OF this] show ?thesis
    unfolding queue_after_branch_def if_not_P [OF False] goal_request_initialized by simp
qed

text \<open>
  Claim C10, amended. After its first part \<open>set_goal\<close> reads \<open>foot_steps[0]\<close> in every call
  and \<open>foot_steps[1]\<close> only when the first footstep's support foot is \<open>LEFT_FOOT\<close> or
  \<open>RIGHT_FOOT\<close>, and it reads the queue as that first part left it: for a goal, the queue
  the planner returned. So a call indexes out of bounds exactly when that queue is empty,
  or holds a single footstep whose support foot is not \<open>BOTH_FEET\<close>. What the trajectory
  generator reads of the queue it is handed is not part of this. The controller is marked
  initialized before the queue is read: the call does what it does on the initialized
  controller, and leaves the controller initialized when it returns.
\<close>

theorem set_goal_out_of_bounds:
  "(set_goal plan lipm_update g a s = Inl OutOfBounds \<longleftrightarrow>
      queue_after_branch plan g a s = []
      \<or> (length (queue_after_branch plan g a s) = 1
         \<and> support_foot (hd (queue_after_branch plan g a s)) \<noteq> BOTH_FEET))
   \<and> set_goal plan lipm_update g a s = set_goal plan lipm_update g a (s\<lparr>initialized := True\<rparr>)
   \<and> (\<forall>s'. set_goal plan lipm_update g a s = Inr s' \<longrightarrow> initialized s')"
proof -
  have "set_goal plan lipm_update g a s = set_goal plan lipm_update g a (s\<lparr>initialized := True\<rparr>)"
    unfolding set_goal_def Let_def mark_initialized by simp
  with set_goal_out_of_bounds_iff [of plan lipm_update g a s] set_goal_queue [of plan lipm_update g a s]
  show ?thesis by blast
qed

section \<open>Configuration\<close>

lemma read_timing_state:
  "snd (read_timing w s) =
     s\<lparr>dsp_duration := read_field w ''timing'' ''dsp_duration'' (dsp_duration s),
       plan_period := read_field w ''timing'' ''plan_period'' (plan_period s),
       com_period := read_field w ''timing'' ''com_period'' (com_period s),
       step_frames := read_field w ''timing'' ''step_frames'' (step_frames s)\<rparr>"
  by (cases s) (simp add: read_timing_def read_field_def assign_section_def Let_def case_prod_beta
      split: option.splits)

lemma read_posture_state:
  "snd (read_posture w s) =
     s\<lparr>com_height := read_field w ''posture'' ''com_height'' (com_height s),
       foot_height := read_field w ''posture'' ''foot_height'' (foot_height s),
       feet_lateral := read_field w ''posture'' ''feet_lateral'' (feet_lateral s)\<rparr>"
  by (cases s) (simp add: read_posture_def read_field_def assign_section_def Let_def case_prod_beta
      split: option.splits)

lemma read_offset_state:
  "snd (read_offset w s) =
     s\<lparr>foot_y_offset := read_field w ''offset'' ''foot_y_offset'' (foot_y_offset s)\<rparr>"
  by (cases s) (simp add: read_offset_def read_field_def assign_section_def Let_def case_prod_beta
      split: option.splits)

lemma read_stride_state:
  "snd (read_stride w uninit s) =
     s\<lparr>max_stride := (read_field w ''stride'' ''max_x'' (fst (max_stride s)),
                      read_field w ''stride'' ''max_y'' (snd (max_stride s))),
       max_rotation := read_rotation w uninit (max_rotation s)\<rparr>"
  by (cases s) (simp add: read_stride_def read_field_def read_rotation_def assign_section_def Let_def case_prod_beta
      split: option.splits)

lemma set_config_rejected_state:
  assumes "set_config w k uninit s = Inl (e, s')"
  shows "e = ConfigError \<and> s' = stored_fields w uninit s"
proof -
  have k: "Kinematics_set_config k kk \<noteq> Inl x" for kk x
    by (simp add: Kinematics_set_config_def Let_def case_prod_beta)
  from assms have "e = ConfigError \<and> s' = snd (read_stride w uninit (snd (read_offset w (snd (read_posture w (snd (read_timing w s)))))))"
    unfolding set_config_def Let_def case_prod_beta
    by (auto split: if_splits sum.splits simp: k)
  then show ?thesis
    unfolding read_timing_state read_posture_state read_offset_state read_stride_state stored_fields_def
    by simp
qed

section \<open>What goals and ticks leave alone\<close>

lemma stop_request_frame:
  "joints (stop_request s) = joints s \<and> kinematics (stop_request s) = kinematics s
   \<and> left_up (stop_request s) = left_up s \<and> right_up (stop_request s) = right_up s
   \<and> foot_height (stop_request s) = foot_height s"
  by (simp add: stop_request_def Let_def)

lemma goal_request_frame:
  "joints (goal_request plan g a s) = joints s \<and> kinematics (goal_request plan g a s) = kinematics s
   \<and> left_up (goal_request plan g a s) = left_up s \<and> right_up (goal_request plan g a s) = right_up s
   \<and> foot_height (goal_request plan g a s) = foot_height s"
  by (simp add: goal_request_def Let_def case_prod_beta)

lemma set_goal_frame:
  assumes "set_goal plan l g a s = Inr s'"
  shows "joints s' = joints s \<and> kinematics s' = kinematics s \<and> left_up s' = left_up s
     \<and> right_up s' = right_up s \<and> foot_height s' = foot_height s \<and> initialized s'"
proof (cases "fst g = - 1 \<and> snd g = - 1")
  case True
  then have g: "g = (- 1, - 1)" by (cases g) simp
  from assms have "retarget l (stop_request (s\<lparr>initialized := True\<rparr>)) = Inr s'"
    unfolding g set_goal_sentinel .
  from retarget_frame [OF this] show ?thesis
    by (simp add: stop_request_frame) (simp add: stop_request_def Let_def)
next
  case False
  from assms have "retarget l (goal_request plan g a (s\<lparr>initialized := True\<rparr>)) = Inr s'"
    unfolding set_goal_other [OF False] .
  from retarget_frame [OF this] show ?thesis
    by (simp add: goal_request_frame) (simp add: goal_request_def Let_def case_prod_beta)
qed

lemma tick_entry_frame:
  assumes "tick_entry plan l s = Inr s1"
  shows "joints s1 = joints s \<and> kinematics s1 = kinematics s \<and> left_up s1 = left_up s
     \<and> right_up s1 = right_up s \<and> foot_height s1 = foot_height s"
proof (cases "com_trajectory s = []")
  case True
  with assms have "set_goal plan l (- 1, - 1) 0 s = Inr s1"
    by (simp add: tick_entry_def stop_def)
  from set_goal_frame [OF this] show ?thesis by simp
next
  case False
  with assms show ?thesis by (simp add: tick_entry_def)
qed


lemma swing_foot_cases:
  assumes "swing_foot h ss se sd diff up off dl tg = Inr (up', off')"
  shows "up' = (if ss < diff \<and> diff \<le> se then up + h / sd
                else if up > 0 then (if sd = 0 then 0 else max (up - h / sd) 0) else up)"
    and "off' = (if diff > ss then (if diff > ss + sd * 2 then tg else vec_add off dl) else off)"
  using assms by (auto simp: swing_foot_def Let_def split: if_splits)

lemma swing_step_frame:
  assumes "swing_step s = Inr (c, s')"
  shows "joints s' = joints s \<and> kinematics s' = kinematics s \<and> foot_height s' = foot_height s
    \<and> foot_steps s' = foot_steps s \<and> initialized s' = initialized s
    \<and> com_trajectory s = c # com_trajectory s'"
  using assms unfolding swing_step_def Let_def
  by (auto split: list.splits if_splits sum.splits prod.splits)



lemma published_frame:
  "left_up (published solver c s) = left_up s \<and> right_up (published solver c s) = right_up s
   \<and> foot_height (published solver c s) = foot_height s \<and> initialized (published solver c s) = initialized s
   \<and> foot_steps (published solver c s) = foot_steps s \<and> com_trajectory (published solver c s) = com_trajectory s
   \<and> left_offset (published solver c s) = left_offset s \<and> right_offset (published solver c s) = right_offset s"
  by (simp add: published_def copy_angles_def)

lemma publish_returns: "publish solver c s = Inr s' \<Longrightarrow> s' = published solver c s"
  by (auto simp: publish_def published_def solver_state_def Let_def case_prod_beta
      split: solver_result.splits thrown.splits)



lemma update_joints_with_stages:
  assumes "update_joints_with solver plan l s = Inr s'" "initialized s"
  obtains s1 c s2 where "tick_entry plan l s = Inr s1" "swing_step s1 = Inr (c, s2)"
    "s' = published solver c s2"
  using assms unfolding update_joints_with_def
  by (auto split: sum.splits dest: publish_returns)








section \<open>The published array\<close>

lemma degree_zero: "degree (Some 0) = Some 0"
  by (simp add: degree_def)

lemma joints_in_sync_constructed: "joints_in_sync (WalkingManager_init joint_list uninit)"
  by (auto simp: joints_in_sync_def WalkingManager_init_def Kinematics_init_def reset_angles_def degree_zero)

lemma set_config_accepted_state:
  assumes "set_config w d uninit s = Inr s'"
  shows "\<exists>k'. Kinematics_set_config d (kinematics s) = Inr k'
     \<and> s' = (stored_fields w uninit s)
          \<lparr>planner_parameters :=
             (max_stride (stored_fields w uninit s), max_rotation (stored_fields w uninit s),
              plan_period (stored_fields w uninit s), foot_y_offset (stored_fields w uninit s)),
           lipm_parameters :=
             (com_height (stored_fields w uninit s), time_step s, com_period (stored_fields w uninit s)),
           kinematics := k'\<rparr>"
proof -
  let ?t = "snd (read_stride w uninit (snd (read_offset w (snd (read_posture w (snd (read_timing w s)))))))"
  have t: "?t = stored_fields w uninit s"
    unfolding read_timing_state read_posture_state read_offset_state read_stride_state stored_fields_def
    by simp
  from assms have "\<exists>k'. Kinematics_set_config d (kinematics ?t) = Inr k'
     \<and> s' = ?t\<lparr>planner_parameters := (max_stride ?t, max_rotation ?t, plan_period ?t, foot_y_offset ?t),
           lipm_parameters := (com_height ?t, time_step ?t, com_period ?t),
           kinematics := k'\<rparr>"
    unfolding set_config_def Let_def case_prod_beta
    by (auto split: if_splits sum.splits)
  then show ?thesis unfolding t by (simp add: stored_fields_def)
qed





section \<open>Solver faults\<close>










section \<open>Swing targets\<close>

lemma retarget_targets:
  assumes "retarget l s = Inr s'"
  shows "(support_foot (foot_steps s ! 0) = LEFT_FOOT \<longrightarrow>
           2 \<le> length (foot_steps s)
           \<and> right_foot_target s' =
               (if support_foot (foot_steps s ! 1) = BOTH_FEET then raw_pose (foot_steps s ! 1)
                else shifted_pose (foot_steps s ! 1) (foot_y_offset s))
           \<and> right_offset_delta s' =
               vec_div (vec_sub (right_foot_target s') (right_offset s)) (step_frames s)
           \<and> next_support s' = RIGHT_FOOT
           \<and> left_foot_target s' = left_foot_target s
           \<and> left_offset_delta s' = left_offset_delta s)
     \<and> (support_foot (foot_steps s ! 0) = RIGHT_FOOT \<longrightarrow>
           2 \<le> length (foot_steps s)
           \<and> left_foot_target s' =
               (if support_foot (foot_steps s ! 1) = BOTH_FEET then raw_pose (foot_steps s ! 1)
                else shifted_pose (foot_steps s ! 1) (- foot_y_offset s))
           \<and> left_offset_delta s' =
               vec_div (vec_sub (left_foot_target s') (left_offset s)) (step_frames s)
           \<and> next_support s' = LEFT_FOOT
           \<and> right_foot_target s' = right_foot_target s
           \<and> right_offset_delta s' = right_offset_delta s)
     \<and> (support_foot (foot_steps s ! 0) = BOTH_FEET \<longrightarrow>
           left_foot_target s' = left_foot_target s
           \<and> left_offset_delta s' = left_offset_delta s
           \<and> right_foot_target s' = right_foot_target s
           \<and> right_offset_delta s' = right_offset_delta s
           \<and> next_support s' = next_support s)
     \<and> left_offset s' = left_offset s \<and> right_offset s' = right_offset s
     \<and> walk_rotation s' = rotation (foot_steps s ! 0)"
  using assms unfolding retarget_def Let_def raw_pose_def shifted_pose_def
  by (auto split: list.splits if_splits)

section \<open>The swing foot in one tick\<close>

lemma swing_step_swing:
  assumes "swing_step s = Inr (c, s')" "foot_steps s = f0 # f1 # fs" "support_foot f0 \<noteq> BOTH_FEET"
  shows "swing_lift (support_foot f0) s' =
           (if ssp_start s < tick_diff f0 f1 s \<and> tick_diff f0 f1 s \<le> ssp_end f0 f1 s
            then swing_lift (support_foot f0) s + foot_height s / ssp_duration f0 f1 s
            else if swing_lift (support_foot f0) s > 0
            then (if ssp_duration f0 f1 s = 0 then 0
                  else max (swing_lift (support_foot f0) s - foot_height s / ssp_duration f0 f1 s) 0)
            else swing_lift (support_foot f0) s)"
    and "swing_offset (support_foot f0) s' =
           (if tick_diff f0 f1 s > ssp_start s
            then (if tick_diff f0 f1 s > ssp_start s + ssp_duration f0 f1 s * 2
                  then swing_target (support_foot f0) s
                  else vec_add (swing_offset (support_foot f0) s) (swing_delta (support_foot f0) s))
            else swing_offset (support_foot f0) s)"
proof -
  obtain c0 rest where tr: "com_trajectory s = c0 # rest"
    using assms(1) by (cases "com_trajectory s") (simp_all add: swing_step_def)
  have q: "step_period f0 f1 (s\<lparr>com_trajectory := rest\<rparr>) = step_period f0 f1 s"
    "step_period f0 f1 (s\<lparr>com_trajectory := rest, walk_rotation := w\<rparr>) = step_period f0 f1 s"
    "ssp_start (s\<lparr>com_trajectory := rest, walk_rotation := w\<rparr>) = ssp_start s"
    "ssp_end f0 f1 (s\<lparr>com_trajectory := rest, walk_rotation := w\<rparr>) = ssp_end f0 f1 s"
    "ssp_duration f0 f1 (s\<lparr>com_trajectory := rest, walk_rotation := w\<rparr>) = ssp_duration f0 f1 s"
    for w
    by (simp_all add: step_period_def ssp_start_def ssp_end_def ssp_duration_def)
  have d: "tick_diff f0 f1 s = step_period f0 f1 s - real (length rest)"
    by (simp add: tick_diff_def tr)
  consider "support_foot f0 = LEFT_FOOT" | "support_foot f0 = RIGHT_FOOT"
    using assms(3) by (cases "support_foot f0") simp_all
  then have "swing_lift (support_foot f0) s' =
           (if ssp_start s < tick_diff f0 f1 s \<and> tick_diff f0 f1 s \<le> ssp_end f0 f1 s
            then swing_lift (support_foot f0) s + foot_height s / ssp_duration f0 f1 s
            else if swing_lift (support_foot f0) s > 0
            then (if ssp_duration f0 f1 s = 0 then 0
                  else max (swing_lift (support_foot f0) s - foot_height s / ssp_duration f0 f1 s) 0)
            else swing_lift (support_foot f0) s)
     \<and> swing_offset (support_foot f0) s' =
           (if tick_diff f0 f1 s > ssp_start s
            then (if tick_diff f0 f1 s > ssp_start s + ssp_duration f0 f1 s * 2
                  then swing_target (support_foot f0) s
                  else vec_add (swing_offset (support_foot f0) s) (swing_delta (support_foot f0) s))
            else swing_offset (support_foot f0) s)"
  proof cases
    case 1
    from assms(1) obtain up off where
      sf: "swing_foot (foot_height s) (ssp_start s) (ssp_end f0 f1 s) (ssp_duration f0 f1 s)
             (tick_diff f0 f1 s) (right_up s) (right_offset s) (right_offset_delta s)
             (right_foot_target s) = Inr (up, off)"
      and s': "right_up s' = up" "right_offset s' = off"
      unfolding swing_step_def tr Let_def d
      by (auto simp: assms(2) 1 q split: if_splits sum.splits)
    from swing_foot_cases [OF sf] sf show ?thesis
      unfolding swing_lift_def swing_offset_def swing_target_def swing_delta_def 1 s'
      by (auto simp: swing_foot_def Let_def split: if_splits)
  next
    case 2
    from assms(1) obtain up off where
      sf: "swing_foot (foot_height s) (ssp_start s) (ssp_end f0 f1 s) (ssp_duration f0 f1 s)
             (tick_diff f0 f1 s) (left_up s) (left_offset s) (left_offset_delta s)
             (left_foot_target s) = Inr (up, off)"
      and s': "left_up s' = up" "left_offset s' = off"
      unfolding swing_step_def tr Let_def d
      by (auto simp: assms(2) 2 q split: if_splits sum.splits)
    from swing_foot_cases [OF sf] sf show ?thesis
      unfolding swing_lift_def swing_offset_def swing_target_def swing_delta_def 2 s'
      by (auto simp: swing_foot_def Let_def split: if_splits)
  qed
  then show "swing_lift (support_foot f0) s' =
           (if ssp_start s < tick_diff f0 f1 s \<and> tick_diff f0 f1 s \<le> ssp_end f0 f1 s
            then swing_lift (support_foot f0) s + foot_height s / ssp_duration f0 f1 s
            else if swing_lift (support_foot f0) s > 0
            then (if ssp_duration f0 f1 s = 0 then 0
                  else max (swing_lift (support_foot f0) s - foot_height s / ssp_duration f0 f1 s) 0)
            else swing_lift (support_foot f0) s)"
    and "swing_offset (support_foot f0) s' =
           (if tick_diff f0 f1 s > ssp_start s
            then (if tick_diff f0 f1 s > ssp_start s + ssp_duration f0 f1 s * 2
                  then swing_target (support_foot f0) s
                  else vec_add (swing_offset (support_foot f0) s) (swing_delta (support_foot f0) s))
            else swing_offset (support_foot f0) s)"
    by blast+
qed

lemma swing_step_settings:
  assumes "swing_step s = Inr (c, s')"
  shows "same_settings s s' \<and> com_trajectory s = c # com_trajectory s'"
  using assms unfolding swing_step_def Let_def same_settings_def
  by (auto split: list.splits if_splits sum.splits prod.splits)

lemma swing_step_other:
  assumes "swing_step s = Inr (c, s')" "foot_steps s = f0 # fs"
  shows "(support_foot f0 = LEFT_FOOT \<longrightarrow> left_up s' = left_up s \<and> left_offset s' = left_offset s)
       \<and> (support_foot f0 = RIGHT_FOOT \<longrightarrow> right_up s' = right_up s \<and> right_offset s' = right_offset s)
       \<and> (support_foot f0 = BOTH_FEET \<longrightarrow> left_up s' = left_up s \<and> left_offset s' = left_offset s
             \<and> right_up s' = right_up s \<and> right_offset s' = right_offset s)"
  using assms unfolding swing_step_def Let_def
  by (auto split: list.splits if_splits sum.splits prod.splits)

lemma swing_step_queue:
  assumes "swing_step s = Inr (c, s')"
  obtains f0 f1 fs where "foot_steps s = f0 # f1 # fs"
  using assms unfolding swing_step_def Let_def
  by (auto split: list.splits if_splits sum.splits prod.splits)

lemma swing_step_nonneg:
  assumes "swing_step s = Inr (c, s')" "0 \<le> foot_height s" "0 \<le> left_up s" "0 \<le> right_up s"
    "foot_height s = 0 \<longrightarrow> left_up s = 0 \<and> right_up s = 0"
  shows "0 \<le> left_up s' \<and> 0 \<le> right_up s'
     \<and> (foot_height s = 0 \<longrightarrow> left_up s' = 0 \<and> right_up s' = 0)"
proof -
  from swing_step_queue [OF assms(1)] obtain f0 f1 fs where q: "foot_steps s = f0 # f1 # fs" by blast
  show ?thesis
  proof (cases "support_foot f0 = BOTH_FEET")
    case True
    with swing_step_other [OF assms(1) q] assms show ?thesis by simp
  next
    case False
    have pos: "0 \<le> foot_height s / ssp_duration f0 f1 s"
      if "ssp_start s < tick_diff f0 f1 s \<and> tick_diff f0 f1 s \<le> ssp_end f0 f1 s"
      using that assms(2) by (simp add: ssp_duration_def)
    have l: "0 \<le> swing_lift (support_foot f0) s"
      "foot_height s = 0 \<longrightarrow> swing_lift (support_foot f0) s = 0"
      using assms(3-5) by (simp_all add: swing_lift_def)
    with swing_step_swing(1) [OF assms(1) q False] pos
    have "0 \<le> swing_lift (support_foot f0) s'
        \<and> (foot_height s = 0 \<longrightarrow> swing_lift (support_foot f0) s' = 0)"
      by (simp split: if_splits)
    with swing_step_other [OF assms(1) q] assms(3-5) False show ?thesis
      by (cases "support_foot f0") (simp_all add: swing_lift_def)
  qed
qed

lemma update_joints_nonneg:
  assumes "update_joints plan l s = Inr s'" "0 \<le> foot_height s" "0 \<le> left_up s" "0 \<le> right_up s"
    "foot_height s = 0 \<longrightarrow> left_up s = 0 \<and> right_up s = 0"
  shows "0 \<le> left_up s' \<and> 0 \<le> right_up s' \<and> foot_height s' = foot_height s
     \<and> (foot_height s = 0 \<longrightarrow> left_up s' = 0 \<and> right_up s' = 0)"
proof (cases "initialized s")
  case False
  with assms show ?thesis by (simp add: update_joints_def update_joints_with_def)
next
  case True
  from update_joints_with_stages [OF assms(1) [unfolded update_joints_def] True] obtain s1 c s2 where
    st: "tick_entry plan l s = Inr s1" "swing_step s1 = Inr (c, s2)"
      "s' = published (\<lambda>k l r. Returned (solve_inverse_kinematics k l r)) c s2"
    by blast
  from tick_entry_frame [OF st(1)] assms have "0 \<le> foot_height s1" "0 \<le> left_up s1" "0 \<le> right_up s1"
    "foot_height s1 = 0 \<longrightarrow> left_up s1 = 0 \<and> right_up s1 = 0"
    by simp_all
  from swing_step_nonneg [OF st(2) this] swing_step_frame [OF st(2)] tick_entry_frame [OF st(1)]
  show ?thesis unfolding st(3) by (simp add: published_frame)
qed

lemma evolves_nonneg:
  assumes "evolves s s'" "0 \<le> foot_height s" "0 \<le> left_up s" "0 \<le> right_up s"
    "foot_height s = 0 \<longrightarrow> left_up s = 0 \<and> right_up s = 0"
  shows "0 \<le> left_up s' \<and> 0 \<le> right_up s' \<and> foot_height s' = foot_height s
     \<and> (foot_height s = 0 \<longrightarrow> left_up s' = 0 \<and> right_up s' = 0)"
  using assms
proof (induction rule: evolves.induct)
  case (stay s)
  then show ?case by simp
next
  case (by_goal s s1 plan lipm_update g a s2)
  with set_goal_frame [OF by_goal(2)] show ?case by simp
next
  case (by_tick s s1 plan lipm_update s2)
  then have "0 \<le> left_up s1 \<and> 0 \<le> right_up s1 \<and> foot_height s1 = foot_height s
     \<and> (foot_height s = 0 \<longrightarrow> left_up s1 = 0 \<and> right_up s1 = 0)" by simp
  with update_joints_nonneg [OF by_tick(2)] by_tick(4) show ?case by simp
qed

lemma swing_foot_returns:
  assumes "0 \<le> h" "h = 0 \<longrightarrow> up = 0"
  shows "\<not> isl (swing_foot h ss se sd diff up off dl tg)"
  using assms by (auto simp: swing_foot_def Let_def)

section \<open>The swing foot over the ticks of a step\<close>

lemma same_settings_timing:
  assumes "same_settings s s'"
  shows "step_period f0 f1 s' = step_period f0 f1 s" "ssp_start s' = ssp_start s"
    "ssp_end f0 f1 s' = ssp_end f0 f1 s" "ssp_duration f0 f1 s' = ssp_duration f0 f1 s"
    "swing_target k s' = swing_target k s" "swing_delta k s' = swing_delta k s"
  using assms
  by (simp_all add: same_settings_def step_period_def ssp_start_def ssp_end_def ssp_duration_def
      swing_target_def swing_delta_def)

lemma same_settings_trans: "same_settings s s1 \<Longrightarrow> same_settings s1 s2 \<Longrightarrow> same_settings s s2"
  by (simp add: same_settings_def)

lemma same_settings_refl: "same_settings s s"
  by (simp add: same_settings_def)

lemma published_settings:
  "same_settings s (published solver c s) \<and> com_trajectory (published solver c s) = com_trajectory s
   \<and> swing_lift k (published solver c s) = swing_lift k s
   \<and> swing_offset k (published solver c s) = swing_offset k s"
  by (simp add: published_def copy_angles_def same_settings_def swing_lift_def swing_offset_def)

lemma plain_tick:
  assumes "update_joints plan l s = Inr s'" "initialized s" "com_trajectory s \<noteq> []"
  obtains c s2 where "swing_step s = Inr (c, s2)"
    "s' = published (\<lambda>k l r. Returned (solve_inverse_kinematics k l r)) c s2"
proof -
  from update_joints_with_stages [OF assms(1) [unfolded update_joints_def] assms(2)] obtain s1 c s2 where
    st: "tick_entry plan l s = Inr s1" "swing_step s1 = Inr (c, s2)"
      "s' = published (\<lambda>k l r. Returned (solve_inverse_kinematics k l r)) c s2"
    by blast
  from st(1) assms(3) have "s1 = s" by (simp add: tick_entry_def)
  with st that show ?thesis by blast
qed

lemma plain_tick_swing:
  assumes "update_joints plan l s = Inr s'" "initialized s" "com_trajectory s \<noteq> []"
    "foot_steps s = f0 # f1 # fs" "support_foot f0 \<noteq> BOTH_FEET"
  shows "same_settings s s'" "com_trajectory s' = tl (com_trajectory s)"
    "swing_lift (support_foot f0) s' =
           (if ssp_start s < tick_diff f0 f1 s \<and> tick_diff f0 f1 s \<le> ssp_end f0 f1 s
            then swing_lift (support_foot f0) s + foot_height s / ssp_duration f0 f1 s
            else if swing_lift (support_foot f0) s > 0
            then (if ssp_duration f0 f1 s = 0 then 0
                  else max (swing_lift (support_foot f0) s - foot_height s / ssp_duration f0 f1 s) 0)
            else swing_lift (support_foot f0) s)"
    "swing_offset (support_foot f0) s' =
           (if tick_diff f0 f1 s > ssp_start s
            then (if tick_diff f0 f1 s > ssp_start s + ssp_duration f0 f1 s * 2
                  then swing_target (support_foot f0) s
                  else vec_add (swing_offset (support_foot f0) s) (swing_delta (support_foot f0) s))
            else swing_offset (support_foot f0) s)"
proof -
  from plain_tick [OF assms(1-3)] obtain c s2 where
    st: "swing_step s = Inr (c, s2)" "s' = published (\<lambda>k l r. Returned (solve_inverse_kinematics k l r)) c s2"
    by blast
  from swing_step_settings [OF st(1)] show "same_settings s s'" "com_trajectory s' = tl (com_trajectory s)"
    unfolding st(2) using published_settings same_settings_trans by (blast, simp add: published_settings)
  from swing_step_swing(1) [OF st(1) assms(4,5)] show "swing_lift (support_foot f0) s' =
           (if ssp_start s < tick_diff f0 f1 s \<and> tick_diff f0 f1 s \<le> ssp_end f0 f1 s
            then swing_lift (support_foot f0) s + foot_height s / ssp_duration f0 f1 s
            else if swing_lift (support_foot f0) s > 0
            then (if ssp_duration f0 f1 s = 0 then 0
                  else max (swing_lift (support_foot f0) s - foot_height s / ssp_duration f0 f1 s) 0)
            else swing_lift (support_foot f0) s)"
    unfolding st(2) by (simp only: published_settings)
  from swing_step_swing(2) [OF st(1) assms(4,5)] show "swing_offset (support_foot f0) s' =
           (if tick_diff f0 f1 s > ssp_start s
            then (if tick_diff f0 f1 s > ssp_start s + ssp_duration f0 f1 s * 2
                  then swing_target (support_foot f0) s
                  else vec_add (swing_offset (support_foot f0) s) (swing_delta (support_foot f0) s))
            else swing_offset (support_foot f0) s)"
    unfolding st(2) by (simp only: published_settings)
qed

lemma ticks_settings:
  assumes "ticks n plan l s = Inr s'" "initialized s" "n \<le> length (com_trajectory s)"
    "foot_steps s = f0 # f1 # fs" "support_foot f0 \<noteq> BOTH_FEET"
  shows "same_settings s s' \<and> com_trajectory s' = drop n (com_trajectory s)"
  using assms
proof (induction n arbitrary: s)
  case 0
  then show ?case by (simp add: same_settings_refl)
next
  case (Suc n)
  from Suc.prems(1) obtain s1 where
    t: "update_joints plan l s = Inr s1" "ticks n plan l s1 = Inr s'"
    by (auto split: sum.splits)
  from Suc.prems(3) have ne: "com_trajectory s \<noteq> []" by auto
  note pt = plain_tick_swing(1,2) [OF t(1) Suc.prems(2) ne Suc.prems(4,5)]
  have "same_settings s1 s' \<and> com_trajectory s' = drop n (com_trajectory s1)"
    using t(2) pt Suc.prems(2-5)
    by (intro Suc.IH) (auto simp: same_settings_def)
  with pt show ?case
    by (auto simp: drop_Suc intro: same_settings_trans)
qed

lemma ticks_snoc:
  "ticks (Suc n) plan l s = Inr s' \<Longrightarrow>
     \<exists>s1. ticks n plan l s = Inr s1 \<and> update_joints plan l s1 = Inr s'"
proof (induction n arbitrary: s)
  case 0
  then show ?case by (auto split: sum.splits)
next
  case (Suc n)
  from Suc.prems obtain s0 where
    t: "update_joints plan l s = Inr s0" "ticks (Suc n) plan l s0 = Inr s'"
    by (auto split: sum.splits)
  from Suc.IH [OF t(2)] t(1) show ?case by auto
qed

lemma retarget_time_step: "retarget l s = Inr s' \<Longrightarrow> time_step s' = time_step s"
  by (auto simp: retarget_def Let_def split: list.splits if_splits)

lemma set_goal_time_step:
  assumes "set_goal plan l g a s = Inr s'"
  shows "time_step s' = time_step s"
proof (cases "fst g = - 1 \<and> snd g = - 1")
  case True
  then have g: "g = (- 1, - 1)" by (cases g) simp
  from assms have "retarget l (stop_request (s\<lparr>initialized := True\<rparr>)) = Inr s'"
    unfolding g set_goal_sentinel .
  from retarget_time_step [OF this] show ?thesis by (simp add: stop_request_def Let_def)
next
  case False
  from assms have "retarget l (goal_request plan g a (s\<lparr>initialized := True\<rparr>)) = Inr s'"
    unfolding set_goal_other [OF False] .
  from retarget_time_step [OF this] show ?thesis
    by (simp add: goal_request_def Let_def case_prod_beta)
qed

lemma evolves_time_step:
  assumes "evolves s s'"
  shows "time_step s' = time_step s"
  using assms
proof (induction rule: evolves.induct)
  case (stay s)
  show ?case by simp
next
  case (by_goal s s1 plan lipm_update g a s2)
  from set_goal_time_step [OF by_goal(2)] by_goal(3) show ?case by simp
next
  case (by_tick s s1 plan lipm_update s2)
  show ?case
  proof (cases "initialized s1")
    case False
    with by_tick show ?thesis by (simp add: update_joints_def update_joints_with_def)
  next
    case True
    from update_joints_with_stages [OF by_tick(2) [unfolded update_joints_def] True] obtain t1 c t2 where
      st: "tick_entry plan lipm_update s1 = Inr t1" "swing_step t1 = Inr (c, t2)"
        "s2 = published (\<lambda>k l r. Returned (solve_inverse_kinematics k l r)) c t2"
      by blast
    have "time_step t1 = time_step s1"
    proof (cases "com_trajectory s1 = []")
      case True
      with st(1) have "set_goal plan lipm_update (- 1, - 1) 0 s1 = Inr t1"
        by (simp add: tick_entry_def stop_def)
      then show ?thesis by (rule set_goal_time_step)
    next
      case False
      with st(1) show ?thesis by (simp add: tick_entry_def)
    qed
    moreover have "time_step t2 = time_step t1"
      using swing_step_settings [OF st(2)] by (simp add: same_settings_def)
    moreover have "time_step s2 = time_step t2"
      unfolding st(3) using published_settings [of t2] by (simp add: same_settings_def)
    ultimately show ?thesis using by_tick(3) by simp
  qed
qed

text \<open>
  Claim C2, amended. From a state with \<open>foot_height\<close> and both lifts not negative, with
  both lifts 0 if \<open>foot_height\<close> is 0, and with a \<open>time_step\<close> other than 0 (the constructor
  sets it to 0.01 and nothing assigns it):
  (1) through every sequence of goals and ticks both lifts stay not negative, and 0 if
  \<open>foot_height\<close> is 0, and \<open>foot_height\<close> and \<open>time_step\<close> stay;
  (2) in every tick, with \<open>diff\<close>, \<open>ssp_start\<close>, \<open>ssp_end\<close> and \<open>ssp_duration\<close> as
  \<open>update_joints\<close> computes them after its optional \<open>stop()\<close>, the swing foot's lift rises by
  \<open>foot_height / ssp_duration\<close> when \<open>ssp_start < diff \<le> ssp_end\<close>, and \<open>ssp_duration\<close> is
  positive there; otherwise a lift of 0 stays, and a positive lift becomes 0 when the
  window is empty (\<open>ssp_duration = 0\<close>) and else falls by \<open>foot_height / ssp_duration\<close>, not
  below 0; the lift of the foot that does not swing stays as it is;
  (3) through every such sequence the lift that a tick stores for either foot is a real
  number, neither NaN nor infinite, whatever the window and \<open>diff\<close> are.
  Nothing is said of the lift at the end of a window or of a step: no tick is bound to
  bring it back to 0.
\<close>

theorem lift_stays_nonnegative:
  assumes "0 \<le> foot_height s" "0 \<le> left_up s" "0 \<le> right_up s"
    "foot_height s = 0 \<longrightarrow> left_up s = 0 \<and> right_up s = 0"
    "time_step s \<noteq> 0"
  shows "(\<forall>s'. evolves s s' \<longrightarrow>
            0 \<le> left_up s' \<and> 0 \<le> right_up s' \<and> foot_height s' = foot_height s
            \<and> time_step s' = time_step s
            \<and> (foot_height s = 0 \<longrightarrow> left_up s' = 0 \<and> right_up s' = 0))
     \<and> (\<forall>plan lipm_update s1 s' f0 f1 fs.
          initialized s \<and> tick_entry plan lipm_update s = Inr s1
          \<and> update_joints plan lipm_update s = Inr s'
          \<and> foot_steps s1 = f0 # f1 # fs \<and> support_foot f0 \<noteq> BOTH_FEET \<longrightarrow>
          (ssp_start s1 < tick_diff f0 f1 s1 \<and> tick_diff f0 f1 s1 \<le> ssp_end f0 f1 s1 \<longrightarrow>
             0 < ssp_duration f0 f1 s1
             \<and> swing_lift (support_foot f0) s' =
                 swing_lift (support_foot f0) s + foot_height s / ssp_duration f0 f1 s1)
          \<and> (\<not> (ssp_start s1 < tick_diff f0 f1 s1 \<and> tick_diff f0 f1 s1 \<le> ssp_end f0 f1 s1) \<longrightarrow>
             swing_lift (support_foot f0) s' =
               (if 0 < swing_lift (support_foot f0) s
                then (if ssp_duration f0 f1 s1 = 0 then 0
                      else max (swing_lift (support_foot f0) s
                                  - foot_height s / ssp_duration f0 f1 s1) 0)
                else swing_lift (support_foot f0) s))
          \<and> (support_foot f0 = LEFT_FOOT \<longrightarrow> left_up s' = left_up s)
          \<and> (support_foot f0 = RIGHT_FOOT \<longrightarrow> right_up s' = right_up s))
     \<and> (\<forall>s' ss se sd diff off dl tg.
          evolves s s' \<longrightarrow>
          \<not> isl (swing_foot (foot_height s') ss se sd diff (left_up s') off dl tg)
          \<and> \<not> isl (swing_foot (foot_height s') ss se sd diff (right_up s') off dl tg))"
proof (intro conjI allI impI)
  fix s' assume "evolves s s'"
  from evolves_nonneg [OF this assms(1-4)] show "0 \<le> left_up s'" "0 \<le> right_up s'"
    "foot_height s' = foot_height s" by simp_all
  from evolves_time_step [OF \<open>evolves s s'\<close>] show "time_step s' = time_step s" .
  { assume "foot_height s = 0"
    with evolves_nonneg [OF \<open>evolves s s'\<close> assms(1-4)] show "left_up s' = 0" "right_up s' = 0"
      by simp_all }
next
  fix plan lipm_update s1 s' f0 f1 fs
  assume h: "initialized s \<and> tick_entry plan lipm_update s = Inr s1
          \<and> update_joints plan lipm_update s = Inr s'
          \<and> foot_steps s1 = f0 # f1 # fs \<and> support_foot f0 \<noteq> BOTH_FEET"
  from h have i: "initialized s" and e: "tick_entry plan lipm_update s = Inr s1"
    and u: "update_joints plan lipm_update s = Inr s'" and q: "foot_steps s1 = f0 # f1 # fs"
    and b: "support_foot f0 \<noteq> BOTH_FEET" by simp_all
  from update_joints_with_stages [OF u [unfolded update_joints_def] i] obtain s0 c s2 where
    st0: "tick_entry plan lipm_update s = Inr s0" "swing_step s0 = Inr (c, s2)"
      "s' = published (\<lambda>k l r. Returned (solve_inverse_kinematics k l r)) c s2"
    by blast
  from st0(1) e have "s0 = s1" by simp
  with st0 have st: "swing_step s1 = Inr (c, s2)"
      "s' = published (\<lambda>k l r. Returned (solve_inverse_kinematics k l r)) c s2"
    by simp_all
  have fr: "swing_lift (support_foot f0) s1 = swing_lift (support_foot f0) s"
    "foot_height s1 = foot_height s"
    using tick_entry_frame [OF e] by (simp_all add: swing_lift_def)
  have l: "swing_lift (support_foot f0) s' = swing_lift (support_foot f0) s2"
    unfolding st(2) by (simp only: published_settings)
  note r = swing_step_swing(1) [OF st(1) q b, unfolded fr, folded l]
  { assume w: "ssp_start s1 < tick_diff f0 f1 s1 \<and> tick_diff f0 f1 s1 \<le> ssp_end f0 f1 s1"
    then show "0 < ssp_duration f0 f1 s1" by (simp add: ssp_duration_def)
    from w r show "swing_lift (support_foot f0) s' =
               swing_lift (support_foot f0) s + foot_height s / ssp_duration f0 f1 s1" by simp }
  { assume "\<not> (ssp_start s1 < tick_diff f0 f1 s1 \<and> tick_diff f0 f1 s1 \<le> ssp_end f0 f1 s1)"
    with r show "swing_lift (support_foot f0) s' =
               (if 0 < swing_lift (support_foot f0) s
                then (if ssp_duration f0 f1 s1 = 0 then 0
                      else max (swing_lift (support_foot f0) s
                                  - foot_height s / ssp_duration f0 f1 s1) 0)
                else swing_lift (support_foot f0) s)" by simp }
  have o: "left_up s' = left_up s2" "right_up s' = right_up s2"
    unfolding st(2) by (simp_all add: published_frame)
  have k: "left_up s1 = left_up s" "right_up s1 = right_up s"
    using tick_entry_frame [OF e] by simp_all
  { assume "support_foot f0 = LEFT_FOOT"
    with swing_step_other [OF st(1) q] show "left_up s' = left_up s" by (simp add: o k) }
  { assume "support_foot f0 = RIGHT_FOOT"
    with swing_step_other [OF st(1) q] show "right_up s' = right_up s" by (simp add: o k) }
next
  fix s' ss se sd diff off dl tg
  assume "evolves s s'"
  from evolves_nonneg [OF this assms(1-4)] assms(1)
  have n: "0 \<le> foot_height s'" "foot_height s' = 0 \<longrightarrow> left_up s' = 0"
    "foot_height s' = 0 \<longrightarrow> right_up s' = 0" by simp_all
  show "\<not> isl (swing_foot (foot_height s') ss se sd diff (left_up s') off dl tg)"
    using n(1,2) by (rule swing_foot_returns)
  show "\<not> isl (swing_foot (foot_height s') ss se sd diff (right_up s') off dl tg)"
    using n(1,3) by (rule swing_foot_returns)
qed

lemma set_goal_branch:
  assumes "set_goal plan l g a s = Inr s'"
  obtains b where "retarget l b = Inr s'"
    "foot_y_offset b = foot_y_offset s" "step_frames b = step_frames s"
    "left_foot_target b = left_foot_target s" "right_foot_target b = right_foot_target s"
    "left_offset_delta b = left_offset_delta s" "right_offset_delta b = right_offset_delta s"
    "left_offset b = left_offset s" "right_offset b = right_offset s"
    "next_support b = next_support s" "feet_lateral b = feet_lateral s"
proof (cases "fst g = - 1 \<and> snd g = - 1")
  case True
  then have g: "g = (- 1, - 1)" by (cases g) simp
  from assms have "retarget l (stop_request (s\<lparr>initialized := True\<rparr>)) = Inr s'"
    unfolding g set_goal_sentinel .
  then show ?thesis
    by (rule that) (simp_all add: stop_request_def Let_def)
next
  case False
  from assms have "retarget l (goal_request plan g a (s\<lparr>initialized := True\<rparr>)) = Inr s'"
    unfolding set_goal_other [OF False] .
  then show ?thesis
    by (rule that) (simp_all add: goal_request_def Let_def case_prod_beta)
qed

text \<open>
  Claim C9, amended. When \<open>set_goal\<close> returns, with \<open>f0\<close> and \<open>f1\<close> the first two footsteps
  of the queue after planning: if the support foot of \<open>f0\<close> is \<open>LEFT_FOOT\<close>, the right foot's
  target is the raw pose of \<open>f1\<close> when the support foot of \<open>f1\<close> is \<open>BOTH_FEET\<close>, and
  otherwise the pose of \<open>f1\<close> with \<open>foot_y_offset\<close> added to \<open>y\<close>; if it is \<open>RIGHT_FOOT\<close>, the
  left foot's target is the same with \<open>foot_y_offset\<close> subtracted; in both cases target and
  delta of the other foot are as before; if it is \<open>BOTH_FEET\<close>, no target and no delta
  changes. Neither foot's offset changes. The lateral shift is the \<open>offset\<close> group's
  \<open>foot_y_offset\<close>; the \<open>posture\<close> group's \<open>feet_lateral\<close> is not read.
\<close>

theorem set_goal_swing_target:
  assumes "set_goal plan lipm_update g a s = Inr s'"
  shows "(support_foot (foot_steps s' ! 0) = LEFT_FOOT \<longrightarrow>
           2 \<le> length (foot_steps s')
           \<and> right_foot_target s' =
               (if support_foot (foot_steps s' ! 1) = BOTH_FEET then raw_pose (foot_steps s' ! 1)
                else shifted_pose (foot_steps s' ! 1) (foot_y_offset s))
           \<and> left_foot_target s' = left_foot_target s
           \<and> left_offset_delta s' = left_offset_delta s)
     \<and> (support_foot (foot_steps s' ! 0) = RIGHT_FOOT \<longrightarrow>
           2 \<le> length (foot_steps s')
           \<and> left_foot_target s' =
               (if support_foot (foot_steps s' ! 1) = BOTH_FEET then raw_pose (foot_steps s' ! 1)
                else shifted_pose (foot_steps s' ! 1) (- foot_y_offset s))
           \<and> right_foot_target s' = right_foot_target s
           \<and> right_offset_delta s' = right_offset_delta s)
     \<and> (support_foot (foot_steps s' ! 0) = BOTH_FEET \<longrightarrow>
           left_foot_target s' = left_foot_target s
           \<and> left_offset_delta s' = left_offset_delta s
           \<and> right_foot_target s' = right_foot_target s
           \<and> right_offset_delta s' = right_offset_delta s)
     \<and> left_offset s' = left_offset s \<and> right_offset s' = right_offset s"
proof -
  from set_goal_branch [OF assms] obtain b where b: "retarget lipm_update b = Inr s'"
    "foot_y_offset b = foot_y_offset s" "step_frames b = step_frames s"
    "left_foot_target b = left_foot_target s" "right_foot_target b = right_foot_target s"
    "left_offset_delta b = left_offset_delta s" "right_offset_delta b = right_offset_delta s"
    "left_offset b = left_offset s" "right_offset b = right_offset s"
    "next_support b = next_support s" "feet_lateral b = feet_lateral s"
    by blast
  from retarget_frame [OF b(1)] have q: "foot_steps b = foot_steps s'" by simp
  from retarget_targets [OF b(1)] show ?thesis
    unfolding q b(2-10) by simp
qed

lemma set_goal_delta:
  assumes "set_goal plan l g a s = Inr s'" "support_foot (foot_steps s' ! 0) \<noteq> BOTH_FEET"
  shows "step_frames s \<noteq> 0 \<and>
     swing_delta (support_foot (foot_steps s' ! 0)) s' =
       vec_div (vec_sub (swing_target (support_foot (foot_steps s' ! 0)) s')
                  (swing_offset (support_foot (foot_steps s' ! 0)) s)) (step_frames s)"
proof -
  from set_goal_branch [OF assms(1)] obtain b where b: "retarget l b = Inr s'"
    "step_frames b = step_frames s" "left_offset b = left_offset s" "right_offset b = right_offset s"
    by blast
  from retarget_frame [OF b(1)] have q: "foot_steps b = foot_steps s'" by simp
  have nz: "step_frames b \<noteq> 0"
    using b(1) assms(2) [folded q] unfolding retarget_def Let_def
    by (cases "support_foot (foot_steps b ! 0)") (auto split: list.splits if_splits)
  from retarget_targets [OF b(1)] assms(2) nz show ?thesis
    unfolding q b(2-4) swing_delta_def swing_target_def swing_offset_def
    by (cases "support_foot (foot_steps s' ! 0)") simp_all
qed

text \<open>
  Claim C1, amended. (1) When \<open>set_goal\<close> returns and a foot swings, that foot's delta is
  \<open>(target - offset) / step_frames\<close>; \<open>step_frames\<close> is not zero there, since for a zero
  divisor the model's \<open>set_goal\<close> ends with \<open>NotFinite\<close>.
  (2) In every tick, with \<open>diff\<close>, \<open>ssp_start\<close> and \<open>ssp_duration\<close> as \<open>update_joints\<close>
  computes them after its optional \<open>stop()\<close>: \<open>diff \<le> ssp_start\<close> leaves the swing foot's
  offset, \<open>ssp_start < diff \<le> ssp_start + 2 * ssp_duration\<close> adds the delta to it, and
  \<open>diff\<close> above both \<open>ssp_start\<close> and \<open>ssp_start + 2 * ssp_duration\<close> makes it the target.
  (3) So after \<open>n\<close> ticks of one step (\<open>n\<close> at most the number of CoM samples) the offset is
  exactly the target when the \<open>diff\<close> of the last of them is above both bounds. Which tick
  that is follows from \<open>step_period\<close>, \<open>dsp_duration\<close> and the number of CoM samples;
  \<open>step_frames\<close> only scales the delta.
\<close>

theorem swing_offset_reaches_target:
  "(\<forall>plan lipm_update g a s'.
      set_goal plan lipm_update g a s = Inr s'
      \<and> support_foot (foot_steps s' ! 0) \<noteq> BOTH_FEET \<longrightarrow>
      step_frames s \<noteq> 0
      \<and> swing_delta (support_foot (foot_steps s' ! 0)) s' =
          vec_div (vec_sub (swing_target (support_foot (foot_steps s' ! 0)) s')
                     (swing_offset (support_foot (foot_steps s' ! 0)) s)) (step_frames s))
   \<and> (\<forall>plan lipm_update s1 s' f0 f1 fs.
        initialized s \<and> tick_entry plan lipm_update s = Inr s1
        \<and> update_joints plan lipm_update s = Inr s'
        \<and> foot_steps s1 = f0 # f1 # fs \<and> support_foot f0 \<noteq> BOTH_FEET \<longrightarrow>
        (tick_diff f0 f1 s1 \<le> ssp_start s1 \<longrightarrow>
           swing_offset (support_foot f0) s' = swing_offset (support_foot f0) s)
        \<and> (ssp_start s1 < tick_diff f0 f1 s1
            \<and> tick_diff f0 f1 s1 \<le> ssp_start s1 + ssp_duration f0 f1 s1 * 2 \<longrightarrow>
           swing_offset (support_foot f0) s' =
             vec_add (swing_offset (support_foot f0) s) (swing_delta (support_foot f0) s1))
        \<and> (ssp_start s1 < tick_diff f0 f1 s1
            \<and> ssp_start s1 + ssp_duration f0 f1 s1 * 2 < tick_diff f0 f1 s1 \<longrightarrow>
           swing_offset (support_foot f0) s' = swing_target (support_foot f0) s1))
   \<and> (\<forall>n plan lipm_update s' f0 f1 fs.
        initialized s \<and> ticks n plan lipm_update s = Inr s'
        \<and> 0 < n \<and> n \<le> length (com_trajectory s)
        \<and> foot_steps s = f0 # f1 # fs \<and> support_foot f0 \<noteq> BOTH_FEET
        \<and> ssp_start s < step_period f0 f1 s - real (length (com_trajectory s) - n)
        \<and> ssp_start s + ssp_duration f0 f1 s * 2
            < step_period f0 f1 s - real (length (com_trajectory s) - n) \<longrightarrow>
        swing_offset (support_foot f0) s' = swing_target (support_foot f0) s)"
proof (intro conjI allI impI)
  fix plan lipm_update g a s'
  assume "set_goal plan lipm_update g a s = Inr s' \<and> support_foot (foot_steps s' ! 0) \<noteq> BOTH_FEET"
  then have sg: "set_goal plan lipm_update g a s = Inr s'"
    and nb: "support_foot (foot_steps s' ! 0) \<noteq> BOTH_FEET" by simp_all
  have "step_frames s \<noteq> 0 \<and>
     swing_delta (support_foot (foot_steps s' ! 0)) s' =
       vec_div (vec_sub (swing_target (support_foot (foot_steps s' ! 0)) s')
                  (swing_offset (support_foot (foot_steps s' ! 0)) s)) (step_frames s)"
    using sg nb by (rule set_goal_delta)
  then show "step_frames s \<noteq> 0"
    and "swing_delta (support_foot (foot_steps s' ! 0)) s' =
       vec_div (vec_sub (swing_target (support_foot (foot_steps s' ! 0)) s')
                  (swing_offset (support_foot (foot_steps s' ! 0)) s)) (step_frames s)"
    by simp_all
next
  fix plan lipm_update s1 s' f0 f1 fs
  assume h: "initialized s \<and> tick_entry plan lipm_update s = Inr s1
        \<and> update_joints plan lipm_update s = Inr s'
        \<and> foot_steps s1 = f0 # f1 # fs \<and> support_foot f0 \<noteq> BOTH_FEET"
  from h have i: "initialized s" and e: "tick_entry plan lipm_update s = Inr s1"
    and u: "update_joints plan lipm_update s = Inr s'" and q: "foot_steps s1 = f0 # f1 # fs"
    and b: "support_foot f0 \<noteq> BOTH_FEET" by simp_all
  from update_joints_with_stages [OF u [unfolded update_joints_def] i] obtain s0 c s2 where
    st0: "tick_entry plan lipm_update s = Inr s0" "swing_step s0 = Inr (c, s2)"
      "s' = published (\<lambda>k l r. Returned (solve_inverse_kinematics k l r)) c s2"
    by blast
  from st0(1) e have "s0 = s1" by simp
  with st0 have st: "swing_step s1 = Inr (c, s2)"
      "s' = published (\<lambda>k l r. Returned (solve_inverse_kinematics k l r)) c s2"
    by simp_all
  have fr: "swing_offset (support_foot f0) s1 = swing_offset (support_foot f0) s"
  proof (cases "com_trajectory s = []")
    case True
    with e have "set_goal plan lipm_update (- 1, - 1) 0 s = Inr s1"
      by (simp add: tick_entry_def stop_def)
    from set_goal_branch [OF this] obtain b where "retarget lipm_update b = Inr s1"
      "left_offset b = left_offset s" "right_offset b = right_offset s" by blast
    with retarget_frame [of lipm_update b s1] show ?thesis by (simp add: swing_offset_def)
  next
    case False
    with e show ?thesis by (simp add: tick_entry_def)
  qed
  have l: "swing_offset (support_foot f0) s' = swing_offset (support_foot f0) s2"
    unfolding st(2) by (simp only: published_settings)
  note r = swing_step_swing(2) [OF st(1) q b, unfolded fr, folded l]
  { assume "tick_diff f0 f1 s1 \<le> ssp_start s1"
    with r show "swing_offset (support_foot f0) s' = swing_offset (support_foot f0) s" by simp }
  { assume "ssp_start s1 < tick_diff f0 f1 s1
            \<and> tick_diff f0 f1 s1 \<le> ssp_start s1 + ssp_duration f0 f1 s1 * 2"
    with r show "swing_offset (support_foot f0) s' =
             vec_add (swing_offset (support_foot f0) s) (swing_delta (support_foot f0) s1)" by simp }
  { assume "ssp_start s1 < tick_diff f0 f1 s1
            \<and> ssp_start s1 + ssp_duration f0 f1 s1 * 2 < tick_diff f0 f1 s1"
    with r show "swing_offset (support_foot f0) s' = swing_target (support_foot f0) s1" by simp }
next
  fix n plan lipm_update s' f0 f1 fs
  assume h: "initialized s \<and> ticks n plan lipm_update s = Inr s'
        \<and> 0 < n \<and> n \<le> length (com_trajectory s)
        \<and> foot_steps s = f0 # f1 # fs \<and> support_foot f0 \<noteq> BOTH_FEET
        \<and> ssp_start s < step_period f0 f1 s - real (length (com_trajectory s) - n)
        \<and> ssp_start s + ssp_duration f0 f1 s * 2
            < step_period f0 f1 s - real (length (com_trajectory s) - n)"
  then obtain m where n: "n = Suc m" by (cases n) simp_all
  from h ticks_snoc [of m plan lipm_update s s'] obtain s1 where
    t: "ticks m plan lipm_update s = Inr s1" "update_joints plan lipm_update s1 = Inr s'"
    unfolding n by blast
  from h have m: "m \<le> length (com_trajectory s)" unfolding n by simp
  from h have i: "initialized s" and q: "foot_steps s = f0 # f1 # fs"
    and b: "support_foot f0 \<noteq> BOTH_FEET" by simp_all
  from ticks_settings [OF t(1) i m q b] have
    ss: "same_settings s s1" and tr: "com_trajectory s1 = drop m (com_trajectory s)" by simp_all
  from h have ne: "com_trajectory s1 \<noteq> []" unfolding tr n by simp
  have i1: "initialized s1" and q1: "foot_steps s1 = f0 # f1 # fs"
    using ss i q by (simp_all add: same_settings_def)
  note tm = same_settings_timing [OF ss]
  define D where "D = step_period f0 f1 s - real (length (com_trajectory s) - n)"
  have td: "tick_diff f0 f1 s1 = D"
    unfolding tick_diff_def tm tr n D_def by (simp add: drop_Suc [symmetric] tl_drop)
  from h have c: "ssp_start s < D" "ssp_start s + ssp_duration f0 f1 s * 2 < D"
    unfolding D_def by blast+
  from plain_tick_swing(4) [OF t(2) i1 ne q1 b] c
  show "swing_offset (support_foot f0) s' = swing_target (support_foot f0) s"
    unfolding td tm by simp
qed

section \<open>The concrete inputs, evaluated\<close>

lemma demo_step_fields [simp]:
  "position (demo_step stance x t) = (x, 0)" "rotation (demo_step stance x t) = 0"
  "time (demo_step stance x t) = t" "support_foot (demo_step stance x t) = stance"
  by (simp_all add: demo_step_def)

lemma demo_read:
  "read_field (demo_document dsp frames height) ''timing'' ''dsp_duration'' v = dsp"
  "read_field (demo_document dsp frames height) ''timing'' ''plan_period'' v = 2 / 25"
  "read_field (demo_document dsp frames height) ''timing'' ''com_period'' v = 1"
  "read_field (demo_document dsp frames height) ''timing'' ''step_frames'' v = frames"
  "read_field (demo_document dsp frames height) ''posture'' ''com_height'' v = 1 / 5"
  "read_field (demo_document dsp frames height) ''posture'' ''foot_height'' v = height"
  "read_field (demo_document dsp frames height) ''posture'' ''feet_lateral'' v = 1 / 10"
  "read_field (demo_document dsp frames height) ''offset'' ''foot_y_offset'' v = 1 / 20"
  "read_field (demo_document dsp frames height) ''stride'' ''max_x'' v = 1 / 20"
  "read_field (demo_document dsp frames height) ''stride'' ''max_y'' v = 1 / 50"
  "read_rotation (demo_document dsp frames height) u v = make_degree 20"
  by (simp_all add: read_field_def read_rotation_def demo_document_def json_find_def assign_val_def)

lemma demo_valid:
  "fst (read_timing (demo_document dsp frames height) s)"
  "fst (read_posture (demo_document dsp frames height) s)"
  "fst (read_offset (demo_document dsp frames height) s)"
  "fst (read_stride (demo_document dsp frames height) u s)"
  by (simp_all add: read_timing_def read_posture_def read_offset_def read_stride_def
      demo_document_def assign_section_def json_find_def assign_val_def Let_def)

lemma demo_kinematic_read:
  "Kinematics_set_config demo_kinematic Kinematics_init = Inr demo_kinematics"
  by (simp add: Kinematics_set_config_def demo_kinematic_def demo_kinematics_def
      assign_section_def json_find_def assign_val_def Let_def)

lemma demo_set_config:
  "set_config (demo_document dsp frames height) demo_kinematic 0 (WalkingManager_init demo_joint_list 0)
     = Inr (demo_configured dsp frames height)"
proof -
  have "\<not> isl (set_config (demo_document dsp frames height) demo_kinematic 0 (WalkingManager_init demo_joint_list 0))"
    unfolding set_config_def Let_def case_prod_beta
    by (simp add: demo_valid) (simp add: read_timing_state read_posture_state read_offset_state
        read_stride_state WalkingManager_init_def demo_kinematic_read)
  then show ?thesis unfolding demo_configured_def by (simp add: sum.collapse(2))
qed

lemma demo_configured_fields:
  "kinematics (demo_configured dsp frames height) = demo_kinematics"
  "com_trajectory (demo_configured dsp frames height) = []"
  "foot_steps (demo_configured dsp frames height) = []"
  "status (demo_configured dsp frames height) = START"
  "initialized (demo_configured dsp frames height) = False"
  "next_support (demo_configured dsp frames height) = RIGHT_FOOT"
  "walk_rotation (demo_configured dsp frames height) = 0"
  "time_step (demo_configured dsp frames height) = 1 / 100"
  "dsp_duration (demo_configured dsp frames height) = dsp"
  "step_frames (demo_configured dsp frames height) = frames"
  "foot_height (demo_configured dsp frames height) = height"
  "feet_lateral (demo_configured dsp frames height) = 1 / 10"
  "foot_y_offset (demo_configured dsp frames height) = 1 / 20"
  "left_up (demo_configured dsp frames height) = 0"
  "right_up (demo_configured dsp frames height) = 0"
  "joints (demo_configured dsp frames height) = map (\<lambda>j. (j, Some 0)) demo_joint_list"
  "left_offset (demo_configured dsp frames height) = (0, 0, 0)"
  "right_offset (demo_configured dsp frames height) = (0, 0, 0)"
  "left_offset_delta (demo_configured dsp frames height) = (0, 0, 0)"
  "right_offset_delta (demo_configured dsp frames height) = (0, 0, 0)"
  "left_foot_target (demo_configured dsp frames height) = (0, 0, 0)"
  "right_foot_target (demo_configured dsp frames height) = (0, 0, 0)"
  "initial_left_foot (demo_configured dsp frames height) = (- 0.04360000000000016, 0.0495, 0.011499999999999982)"
  "initial_right_foot (demo_configured dsp frames height) = (- 0.04360000000000016, - 0.0495, 0.011499999999999982)"
  "lipm_parameters (demo_configured dsp frames height) = (1 / 5, 1 / 100, 1)"
  "planner_parameters (demo_configured dsp frames height) = ((1 / 20, 1 / 50), make_degree 20, 2 / 25, 1 / 20)"
proof -
  from set_config_accepted_state [OF demo_set_config [of dsp frames height]] obtain k' where
    k: "Kinematics_set_config demo_kinematic (kinematics (WalkingManager_init demo_joint_list 0)) = Inr k'"
    and s: "demo_configured dsp frames height =
       (stored_fields (demo_document dsp frames height) 0 (WalkingManager_init demo_joint_list 0))
          \<lparr>planner_parameters :=
             (max_stride (stored_fields (demo_document dsp frames height) 0 (WalkingManager_init demo_joint_list 0)),
              max_rotation (stored_fields (demo_document dsp frames height) 0 (WalkingManager_init demo_joint_list 0)),
              plan_period (stored_fields (demo_document dsp frames height) 0 (WalkingManager_init demo_joint_list 0)),
              foot_y_offset (stored_fields (demo_document dsp frames height) 0 (WalkingManager_init demo_joint_list 0))),
           lipm_parameters :=
             (com_height (stored_fields (demo_document dsp frames height) 0 (WalkingManager_init demo_joint_list 0)),
              time_step (WalkingManager_init demo_joint_list 0),
              com_period (stored_fields (demo_document dsp frames height) 0 (WalkingManager_init demo_joint_list 0))),
           kinematics := k'\<rparr>"
    by blast
  from k have k': "k' = demo_kinematics"
    by (simp add: WalkingManager_init_def demo_kinematic_read)
  show "kinematics (demo_configured dsp frames height) = demo_kinematics"
  "com_trajectory (demo_configured dsp frames height) = []"
  "foot_steps (demo_configured dsp frames height) = []"
  "status (demo_configured dsp frames height) = START"
  "initialized (demo_configured dsp frames height) = False"
  "next_support (demo_configured dsp frames height) = RIGHT_FOOT"
  "walk_rotation (demo_configured dsp frames height) = 0"
  "time_step (demo_configured dsp frames height) = 1 / 100"
  "dsp_duration (demo_configured dsp frames height) = dsp"
  "step_frames (demo_configured dsp frames height) = frames"
  "foot_height (demo_configured dsp frames height) = height"
  "feet_lateral (demo_configured dsp frames height) = 1 / 10"
  "foot_y_offset (demo_configured dsp frames height) = 1 / 20"
  "left_up (demo_configured dsp frames height) = 0"
  "right_up (demo_configured dsp frames height) = 0"
  "joints (demo_configured dsp frames height) = map (\<lambda>j. (j, Some 0)) demo_joint_list"
  "left_offset (demo_configured dsp frames height) = (0, 0, 0)"
  "right_offset (demo_configured dsp frames height) = (0, 0, 0)"
  "left_offset_delta (demo_configured dsp frames height) = (0, 0, 0)"
  "right_offset_delta (demo_configured dsp frames height) = (0, 0, 0)"
  "left_foot_target (demo_configured dsp frames height) = (0, 0, 0)"
  "right_foot_target (demo_configured dsp frames height) = (0, 0, 0)"
  "initial_left_foot (demo_configured dsp frames height) = (- 0.04360000000000016, 0.0495, 0.011499999999999982)"
  "initial_right_foot (demo_configured dsp frames height) = (- 0.04360000000000016, - 0.0495, 0.011499999999999982)"
  "lipm_parameters (demo_configured dsp frames height) = (1 / 5, 1 / 100, 1)"
  "planner_parameters (demo_configured dsp frames height) = ((1 / 20, 1 / 50), make_degree 20, 2 / 25, 1 / 20)"
    unfolding s k' by (simp_all add: stored_fields_def demo_read WalkingManager_init_def)
qed

lemma demo_walking_state:
  assumes "frames \<noteq> 0"
  shows "set_goal (demo_plan t) (demo_lipm n) (1 / 10, 0) 0 (demo_configured dsp frames height)
     = Inr ((demo_configured dsp frames height)
          \<lparr>com_trajectory := replicate n (0, 0), foot_steps := demo_steps t, status := WALKING,
            initialized := True, next_support := RIGHT_FOOT, walk_rotation := 0,
            right_offset_delta := (1 / 20 / frames, 1 / 20 / frames, 0),
            right_foot_target := (1 / 20, 1 / 20, 0)\<rparr>)"
  using assms
  by (simp add: set_goal_def goal_request_def retarget_def demo_configured_fields demo_plan_def
      demo_lipm_def demo_steps_def Let_def)

lemma demo_walking_eq:
  assumes "frames \<noteq> 0"
  shows "demo_walking dsp frames height t n = (demo_configured dsp frames height)
          \<lparr>com_trajectory := replicate n (0, 0), foot_steps := demo_steps t, status := WALKING,
            initialized := True, next_support := RIGHT_FOOT, walk_rotation := 0,
            right_offset_delta := (1 / 20 / frames, 1 / 20 / frames, 0),
            right_foot_target := (1 / 20, 1 / 20, 0)\<rparr>"
  unfolding demo_walking_def demo_walking_state [OF assms] by simp

lemma demo_set_goal:
  assumes "frames \<noteq> 0"
  shows "set_goal (demo_plan t) (demo_lipm n) (1 / 10, 0) 0 (demo_configured dsp frames height)
     = Inr (demo_walking dsp frames height t n)"
  unfolding demo_walking_eq [OF assms] by (rule demo_walking_state [OF assms])

lemmas tick_defs = update_joints_def update_joints_with_def tick_entry_def swing_step_def
  swing_foot_def publish_def copy_angles_def foot_targets_def step_period_def ssp_start_def ssp_end_def
  ssp_duration_def c_round_def Let_def demo_steps_def

lemmas demo_defs = demo_stride_def demo_short_def demo_walking_eq demo_configured_fields

section \<open>Counterexamples and witnesses\<close>

text \<open>
  Claim C1 as stated fails: with \<open>step_frames = 4\<close>, steps of 8 ticks and a double-support
  duration of 4 ticks, the right foot gets the target \<open>(1/20, 1/20, 0)\<close> and after exactly 4
  ticks its offset is half way there.
\<close>

theorem offset_short_of_target_after_step_frames:
  "set_goal (demo_plan (2 / 25)) (demo_lipm 8) (1 / 10, 0) 0 (demo_configured (1 / 25) 4 (1 / 50))
     = Inr demo_stride
   \<and> step_frames demo_stride = 4
   \<and> right_foot_target demo_stride = (1 / 20, 1 / 20, 0)
   \<and> map_sum id right_offset (ticks 4 (demo_plan (2 / 25)) (demo_lipm 8) demo_stride)
       = Inr (1 / 40, 1 / 40, 0)"
proof -
  have "map_sum id right_offset (ticks 4 (demo_plan (2 / 25)) (demo_lipm 8) demo_stride)
       = Inr (1 / 40, 1 / 40, 0)"
    by (simp add: demo_defs tick_defs eval_nat_numeral)
  then show ?thesis
    by (simp add: demo_set_goal demo_stride_def) (simp add: demo_walking_eq demo_configured_fields)
qed

text \<open>
  Claim C2 as stated fails twice. With a negative \<open>foot_height\<close>, which \<open>set_config\<close>
  accepts, the first tick of the window makes the lift negative. With no double-support
  duration and steps of 3 ticks, the lift is at half its height when the step's last CoM
  sample is gone, and still there 3 ticks later, while the left foot swings.
\<close>

theorem lift_negative_or_still_raised:
  "map_sum id right_up (ticks 1 (demo_plan (3 / 100)) (demo_lipm 3) (demo_short (- (1 / 50))))
     = Inr (- (1 / 100))
   \<and> map_sum id right_up (ticks 3 (demo_plan (3 / 100)) (demo_lipm 3) (demo_short (1 / 50)))
       = Inr (1 / 100)
   \<and> map_sum id com_trajectory (ticks 3 (demo_plan (3 / 100)) (demo_lipm 3) (demo_short (1 / 50)))
       = Inr []
   \<and> map_sum id right_up (ticks 6 (demo_plan (3 / 100)) (demo_lipm 3) (demo_short (1 / 50)))
       = Inr (1 / 100)"
proof -
  have a: "map_sum id right_up (ticks 1 (demo_plan (3 / 100)) (demo_lipm 3) (demo_short (- (1 / 50))))
     = Inr (- (1 / 100))"
    by (simp add: demo_defs tick_defs eval_nat_numeral)
  have b: "map_sum id right_up (ticks 3 (demo_plan (3 / 100)) (demo_lipm 3) (demo_short (1 / 50)))
       = Inr (1 / 100)"
    by (simp add: demo_defs tick_defs eval_nat_numeral)
  have c: "map_sum id com_trajectory (ticks 3 (demo_plan (3 / 100)) (demo_lipm 3) (demo_short (1 / 50)))
       = Inr []"
    by (simp add: demo_defs tick_defs eval_nat_numeral)
  have d: "map_sum id right_up (ticks 6 (demo_plan (3 / 100)) (demo_lipm 3) (demo_short (1 / 50)))
       = Inr (1 / 100)"
    by (simp add: demo_defs tick_defs eval_nat_numeral stop_def set_goal_def stop_request_def
        retarget_def demo_plan_def demo_lipm_def)
  from a b c d show ?thesis by simp
qed

lemmas start_defs = demo_start_def demo_configured_fields

text \<open>
  Claim C8. \<open>Kinematics::set_config\<close> computes \<open>valid_config\<close> and ends without looking at
  it: the document \<open>{}\<close>, in which both groups are absent, is accepted and changes nothing,
  and \<open>WalkingManager::set_config\<close> accepts it as its kinematic document.
\<close>

theorem kinematic_document_without_fields_is_accepted:
  "Kinematics_set_config (JObject []) Kinematics_init = Inr Kinematics_init
   \<and> \<not> isl (set_config (demo_document (1 / 25) 4 (1 / 50)) (JObject []) 0
              (WalkingManager_init demo_joint_list 0))"
proof -
  have k: "Kinematics_set_config (JObject []) k = Inr k" for k
    by (simp add: Kinematics_set_config_def assign_section_def json_find_def Let_def)
  have "\<not> isl (set_config (demo_document (1 / 25) 4 (1 / 50)) (JObject []) 0
              (WalkingManager_init demo_joint_list 0))"
    unfolding set_config_def Let_def case_prod_beta
    by (simp add: demo_valid k)
  with k show ?thesis by simp
qed

text \<open>
  Claim C7 as stated fails: a walking document with the \<open>timing\<close> group only is rejected
  with \<open>ConfigError\<close>, and the configured controller has its four timing fields
  overwritten by then.
\<close>

theorem rejected_document_overwrites_timing:
  "set_config demo_partial demo_kinematic 0 demo_start
     = Inl (ConfigError,
            demo_start\<lparr>dsp_duration := 1 / 50, plan_period := 1 / 5, com_period := 1,
                       step_frames := 20\<rparr>)
   \<and> dsp_duration demo_start = 1 / 25 \<and> step_frames demo_start = 4"
  unfolding set_config_def Let_def case_prod_beta
  by (simp add: read_timing_def read_posture_def read_offset_def read_stride_def demo_partial_def
      assign_section_def json_find_def assign_val_def Let_def start_defs)

lemma rejected_state_frame:
  assumes "set_config w k uninit s = Inl (e, s')"
  shows "planner_parameters s' = planner_parameters s \<and> lipm_parameters s' = lipm_parameters s
     \<and> kinematics s' = kinematics s \<and> time_step s' = time_step s"
  using set_config_rejected_state [OF assms] by (simp add: stored_fields_def)

text \<open>
  Claim C7, amended. When \<open>set_config\<close> raises, the error is \<open>ConfigError\<close> and the
  controller holds every field the call could read: each of the ten numeric fields is the
  document's value when its group and key are readable and its previous value otherwise,
  and \<open>max_rotation\<close> is assigned whenever the \<open>stride\<close> group is present. The parameters of
  the planner, of the trajectory generator and of the solver are as before the call.
\<close>

theorem set_config_rejected_keeps_what_it_read:
  assumes "set_config w k uninit s = Inl (e, s')"
  shows "e = ConfigError \<and> s' = stored_fields w uninit s
     \<and> planner_parameters s' = planner_parameters s \<and> lipm_parameters s' = lipm_parameters s
     \<and> kinematics s' = kinematics s"
  using set_config_rejected_state [OF assms] rejected_state_frame [OF assms] by simp

text \<open>
  The amended claim C7 at the document with the \<open>timing\<close> group only.
\<close>

theorem set_config_rejected_keeps_what_it_read_witness:
  "set_config demo_partial demo_kinematic 0 demo_start
     = Inl (ConfigError, stored_fields demo_partial 0 demo_start)
   \<and> dsp_duration (stored_fields demo_partial 0 demo_start) = 1 / 50
   \<and> foot_height (stored_fields demo_partial 0 demo_start) = foot_height demo_start
   \<and> kinematics (stored_fields demo_partial 0 demo_start) = kinematics demo_start"
proof -
  have "isl (set_config demo_partial demo_kinematic 0 demo_start)"
    unfolding set_config_def Let_def case_prod_beta
    by (simp add: read_timing_def read_posture_def read_offset_def read_stride_def demo_partial_def
      assign_section_def json_find_def assign_val_def Let_def)
  then obtain e s' where r: "set_config demo_partial demo_kinematic 0 demo_start = Inl (e, s')"
    by (metis isl_def surj_pair)
  from set_config_rejected_keeps_what_it_read [OF r] r show ?thesis
    by (simp add: stored_fields_def read_field_def demo_partial_def json_find_def assign_val_def)
qed

text \<open>
  Claim C3 as stated fails: the solver as constructed has \<open>thigh_length = 0\<close>, and for the
  target at the origin the ratio is \<open>0 / 0\<close>, which no clamp repairs; the left hip pitch
  is NaN.
\<close>

theorem unconfigured_solver_yields_nan:
  "thigh_length Kinematics_init = 0
   \<and> angles (solve_inverse_kinematics Kinematics_init zero_foot zero_foot) LEFT_HIP_PITCH = None"
  by (simp add: solve_inverse_kinematics_def solve_right_def solve_left_def right_target_def left_target_def
        leg_angles_def Kinematics_init_def reset_angles_def zero_foot_def sqrt_argument_def c_sqrt_def
        hypot_def clamped_ratio_def ieee_div_def c_arccos_def neg_angle_def Let_def)

text \<open>
  The amended claim C3 at the solver configured from \<open>demo_kinematic\<close>.
\<close>

theorem ik_finite_witness:
  "thigh_length demo_kinematics \<noteq> 0
   \<and> angles (solve_inverse_kinematics demo_kinematics zero_foot zero_foot) LEFT_HIP_PITCH \<noteq> None
   \<and> angles (solve_inverse_kinematics demo_kinematics zero_foot zero_foot) RIGHT_LOWER_KNEE \<noteq> None
   \<and> 0 \<le> sqrt_argument 1 0 0
   \<and> clamped_ratio demo_kinematics 1 = Some 1"
proof -
  have t: "thigh_length demo_kinematics \<noteq> 0"
    by (simp add: demo_kinematics_def)
  from ik_finite [OF t, of zero_foot zero_foot 1 0 0 1] t show ?thesis
    by (simp add: leg_joints_def clamped_ratio_def ieee_div_def demo_kinematics_def)
qed

text \<open>
  Claim C4 at a walking controller with 4 queued footsteps: both effects in one call.
\<close>

theorem stop_request_resets_and_pops_witness:
  "length (foot_steps demo_stride) = 4
   \<and> status demo_stride = WALKING
   \<and> status (stop_request demo_stride) = START
   \<and> foot_steps (stop_request demo_stride) = tl (foot_steps demo_stride)
   \<and> length (foot_steps (stop_request demo_stride)) = 3
   \<and> status (projr (set_goal (demo_plan (2 / 25)) (demo_lipm 8) (- 1, - 1) 0 demo_stride)) = START
   \<and> foot_steps (projr (set_goal (demo_plan (2 / 25)) (demo_lipm 8) (- 1, - 1) 0 demo_stride))
       = tl (foot_steps demo_stride)"
proof -
  have n: "length (foot_steps demo_stride) = 4" "status demo_stride = WALKING"
    by (simp_all add: demo_defs demo_steps_def)
  have "\<not> isl (set_goal (demo_plan (2 / 25)) (demo_lipm 8) (- 1, - 1) 0 demo_stride)"
    by (simp add: demo_defs demo_steps_def set_goal_def stop_request_def retarget_def Let_def)
  then have r: "set_goal (demo_plan (2 / 25)) (demo_lipm 8) (- 1, - 1) 0 demo_stride
      = Inr (projr (set_goal (demo_plan (2 / 25)) (demo_lipm 8) (- 1, - 1) 0 demo_stride))"
    by simp
  from stop_request_resets_and_pops [of demo_stride "demo_plan (2 / 25)" "demo_lipm 8" 0] n r
  show ?thesis by simp
qed

text \<open>
  Claim C10 as stated fails twice: a goal given to a controller with an empty queue
  returns, since the planner fills the queue before it is read; and a stop request on a
  queue of one footstep with both feet supporting returns, since \<open>foot_steps[1]\<close> is not
  read.
\<close>

theorem set_goal_within_bounds_on_short_queue:
  "length (foot_steps demo_start) < 2
   \<and> set_goal (demo_plan (2 / 25)) (demo_lipm 8) (1 / 10, 0) 0 demo_start = Inr demo_stride
   \<and> length (foot_steps demo_standing) < 2
   \<and> \<not> isl (stop (demo_plan (2 / 25)) (demo_lipm 8) demo_standing)"
proof -
  have s: "demo_standing = demo_start
          \<lparr>com_trajectory := replicate 8 (0, 0),
            foot_steps := [demo_step BOTH_FEET 0 0],
            status := WALKING, initialized := True, walk_rotation := 0\<rparr>"
    unfolding demo_standing_def
    by (simp add: set_goal_def goal_request_def retarget_def start_defs demo_only_def
      demo_lipm_def Let_def)
  have "\<not> isl (stop (demo_plan (2 / 25)) (demo_lipm 8) demo_standing)"
    unfolding s
    by (simp add: stop_def set_goal_def stop_request_def retarget_def Let_def)
  moreover have "length (foot_steps demo_standing) < 2" unfolding s by simp
  ultimately show ?thesis
    using demo_set_goal [of 4 "2 / 25" 8 "1 / 25" "1 / 50"]
    by (simp add: start_defs demo_stride_def)
qed

text \<open>
  The amended claim C10: the first \<open>stop()\<close> on an empty queue and a goal planned as a single
  left-support footstep are out of bounds, a goal planned as a single footstep with both
  feet supporting is not.
\<close>

theorem set_goal_out_of_bounds_witness:
  "stop (demo_plan (2 / 25)) (demo_lipm 8) demo_start = Inl OutOfBounds
   \<and> set_goal (demo_only LEFT_FOOT) (demo_lipm 8) (1 / 10, 0) 0 demo_start = Inl OutOfBounds
   \<and> set_goal (demo_only BOTH_FEET) (demo_lipm 8) (1 / 10, 0) 0 demo_start \<noteq> Inl OutOfBounds
   \<and> set_goal (demo_only BOTH_FEET) (demo_lipm 8) (1 / 10, 0) 0 demo_start = Inr demo_standing
   \<and> \<not> initialized demo_start \<and> initialized demo_standing"
proof -
  have "\<not> isl (set_goal (demo_only BOTH_FEET) (demo_lipm 8) (1 / 10, 0) 0 demo_start)"
    by (simp add: set_goal_def goal_request_def retarget_def start_defs demo_only_def
      demo_lipm_def Let_def)
  then have b: "set_goal (demo_only BOTH_FEET) (demo_lipm 8) (1 / 10, 0) 0 demo_start = Inr demo_standing"
    unfolding demo_standing_def by simp
  from set_goal_out_of_bounds [of "demo_only BOTH_FEET" "demo_lipm 8" "(1 / 10, 0)" 0 demo_start,
      THEN conjunct2, THEN conjunct2, rule_format, OF b]
  have 3: "initialized demo_standing" .
  have 4: "\<not> initialized demo_start" by (simp add: start_defs)
  have 1: "queue_after_branch (demo_plan (2 / 25)) (- 1, - 1) 0 demo_start = []"
    by (simp add: queue_after_branch_def stop_request_def start_defs Let_def)
  have 2: "queue_after_branch (demo_only stance) (1 / 10, 0) 0 demo_start
      = [demo_step stance 0 0]" for stance
    by (simp add: queue_after_branch_def goal_request_def start_defs demo_only_def Let_def)
  from set_goal_out_of_bounds [of "demo_plan (2 / 25)" "demo_lipm 8" "(- 1, - 1)" 0 demo_start,
      THEN conjunct1]
    set_goal_out_of_bounds [of "demo_only LEFT_FOOT" "demo_lipm 8" "(1 / 10, 0)" 0 demo_start,
      THEN conjunct1]
    set_goal_out_of_bounds [of "demo_only BOTH_FEET" "demo_lipm 8" "(1 / 10, 0)" 0 demo_start,
      THEN conjunct1]
  show ?thesis
    unfolding 1 2 stop_def using b 3 4 by simp
qed

text \<open>
  Claim C9 as stated fails where it names the foot separation: with \<open>feet_lateral = 1/10\<close>
  and \<open>foot_y_offset = 1/20\<close> the right foot's target is shifted by \<open>1/20\<close>.
\<close>

theorem swing_target_ignores_feet_lateral:
  "set_goal (demo_plan (2 / 25)) (demo_lipm 8) (1 / 10, 0) 0 demo_start = Inr demo_stride
   \<and> support_foot (foot_steps demo_stride ! 0) = LEFT_FOOT
   \<and> support_foot (foot_steps demo_stride ! 1) = RIGHT_FOOT
   \<and> feet_lateral demo_start = 1 / 10
   \<and> foot_y_offset demo_start = 1 / 20
   \<and> right_foot_target demo_stride = shifted_pose (foot_steps demo_stride ! 1) (1 / 20)
   \<and> right_foot_target demo_stride \<noteq> shifted_pose (foot_steps demo_stride ! 1) (1 / 10)"
  using demo_set_goal [of 4 "2 / 25" 8 "1 / 25" "1 / 50"]
  by (simp add: start_defs demo_stride_def) (simp add: demo_walking_eq demo_configured_fields
      demo_steps_def shifted_pose_def)

text \<open>
  The amended claim C9 for a left, a right and a double support at the head of the queue.
\<close>

theorem set_goal_swing_target_witness:
  "right_foot_target demo_stride = shifted_pose (foot_steps demo_stride ! 1) (foot_y_offset demo_start)
   \<and> left_foot_target demo_stride = left_foot_target demo_start
   \<and> left_foot_target (projr (stop (demo_plan (2 / 25)) (demo_lipm 8) demo_stride))
       = shifted_pose (foot_steps demo_stride ! 2) (- foot_y_offset demo_stride)
   \<and> right_foot_target (projr (stop (demo_plan (2 / 25)) (demo_lipm 8) demo_stride))
       = right_foot_target demo_stride
   \<and> right_foot_target demo_standing = right_foot_target demo_start
   \<and> left_foot_target demo_standing = left_foot_target demo_start"
proof -
  have g: "set_goal (demo_plan (2 / 25)) (demo_lipm 8) (1 / 10, 0) 0 demo_start = Inr demo_stride"
    using demo_set_goal [of 4 "2 / 25" 8 "1 / 25" "1 / 50"]
    by (simp add: start_defs demo_stride_def)
  have q: "foot_steps demo_stride = demo_steps (2 / 25)"
    by (simp add: demo_defs)
  have "\<not> isl (stop (demo_plan (2 / 25)) (demo_lipm 8) demo_stride)"
    by (simp add: demo_defs demo_steps_def stop_def set_goal_def stop_request_def retarget_def Let_def)
  then have p: "set_goal (demo_plan (2 / 25)) (demo_lipm 8) (- 1, - 1) 0 demo_stride
      = Inr (projr (stop (demo_plan (2 / 25)) (demo_lipm 8) demo_stride))"
    unfolding stop_def by simp
  have qp: "foot_steps (projr (stop (demo_plan (2 / 25)) (demo_lipm 8) demo_stride))
      = tl (demo_steps (2 / 25))"
    using set_goal_queue [OF p] by (simp add: queue_after_branch_def stop_request_queue q demo_steps_def)
  have "\<not> isl (set_goal (demo_only BOTH_FEET) (demo_lipm 8) (1 / 10, 0) 0 demo_start)"
    by (simp add: set_goal_def goal_request_def retarget_def start_defs demo_only_def
      demo_lipm_def Let_def)
  then have b: "set_goal (demo_only BOTH_FEET) (demo_lipm 8) (1 / 10, 0) 0 demo_start = Inr demo_standing"
    unfolding demo_standing_def by simp
  have qb: "foot_steps demo_standing
      = [demo_step BOTH_FEET 0 0]"
    using set_goal_queue [OF b]
    by (simp add: queue_after_branch_def goal_request_def start_defs demo_only_def Let_def)
  from set_goal_swing_target [OF g] set_goal_swing_target [OF p] set_goal_swing_target [OF b]
  show ?thesis
    unfolding q qp qb by (simp add: demo_steps_def)
qed

lemma demo_tick: "update_joints (demo_plan (2 / 25)) (demo_lipm 8) demo_stride = Inr demo_ticked"
proof -
  have "\<not> isl (update_joints (demo_plan (2 / 25)) (demo_lipm 8) demo_stride)"
    by (simp add: demo_defs tick_defs eval_nat_numeral)
  then show ?thesis unfolding demo_ticked_def by simp
qed





















lemma ticks_prefix:
  "\<not> isl (ticks (m + n) plan l s) \<Longrightarrow> \<not> isl (ticks m plan l s)"
proof (induction m arbitrary: s)
  case 0
  show ?case by simp
next
  case (Suc m)
  then show ?case by (cases "update_joints plan l s") simp_all
qed

lemma demo_stride_ticks: "\<not> isl (ticks 7 (demo_plan (2 / 25)) (demo_lipm 8) demo_stride)"
  by (simp add: demo_defs tick_defs eval_nat_numeral)

lemma demo_stride_timing:
  "foot_steps demo_stride = demo_step LEFT_FOOT 0 0 # demo_step RIGHT_FOOT (1 / 20) (2 / 25)
     # [demo_step LEFT_FOOT (1 / 10) (2 * (2 / 25)), demo_step BOTH_FEET (1 / 10) (3 * (2 / 25))]"
  "initialized demo_stride" "length (com_trajectory demo_stride) = 8"
  "com_trajectory demo_stride \<noteq> []"
  "step_period (demo_step LEFT_FOOT 0 0) (demo_step RIGHT_FOOT (1 / 20) (2 / 25)) demo_stride = 8"
  "ssp_start demo_stride = 2"
  "ssp_end (demo_step LEFT_FOOT 0 0) (demo_step RIGHT_FOOT (1 / 20) (2 / 25)) demo_stride = 4"
  "ssp_duration (demo_step LEFT_FOOT 0 0) (demo_step RIGHT_FOOT (1 / 20) (2 / 25)) demo_stride = 2"
  "tick_diff (demo_step LEFT_FOOT 0 0) (demo_step RIGHT_FOOT (1 / 20) (2 / 25)) demo_stride = 1"
  "support_foot (demo_step LEFT_FOOT 0 0) = LEFT_FOOT"
  "foot_height demo_stride = 1 / 50" "left_up demo_stride = 0" "right_up demo_stride = 0"
  "time_step demo_stride = 1 / 100"
  by (simp_all add: demo_defs demo_steps_def step_period_def ssp_start_def ssp_end_def
      ssp_duration_def tick_diff_def c_round_def)

lemma demo_short_timing:
  "foot_steps (demo_short h) = demo_step LEFT_FOOT 0 0 # demo_step RIGHT_FOOT (1 / 20) (3 / 100)
     # [demo_step LEFT_FOOT (1 / 10) (2 * (3 / 100)), demo_step BOTH_FEET (1 / 10) (3 * (3 / 100))]"
  "initialized (demo_short h)" "length (com_trajectory (demo_short h)) = 3"
  "com_trajectory (demo_short h) \<noteq> []"
  "step_period (demo_step LEFT_FOOT 0 0) (demo_step RIGHT_FOOT (1 / 20) (3 / 100)) (demo_short h) = 3"
  "ssp_start (demo_short h) = 0"
  "ssp_end (demo_step LEFT_FOOT 0 0) (demo_step RIGHT_FOOT (1 / 20) (3 / 100)) (demo_short h) = 2"
  "ssp_duration (demo_step LEFT_FOOT 0 0) (demo_step RIGHT_FOOT (1 / 20) (3 / 100)) (demo_short h) = 2"
  "tick_diff (demo_step LEFT_FOOT 0 0) (demo_step RIGHT_FOOT (1 / 20) (3 / 100)) (demo_short h) = 1"
  "foot_height (demo_short h) = h" "left_up (demo_short h) = 0" "right_up (demo_short h) = 0"
  "time_step (demo_short h) = 1 / 100"
  by (simp_all add: demo_defs demo_steps_def step_period_def ssp_start_def ssp_end_def
      ssp_duration_def tick_diff_def c_round_def)

lemma demo_short_ticks: "\<not> isl (ticks 3 (demo_plan (3 / 100)) (demo_lipm 3) (demo_short (1 / 50)))"
  by (simp add: demo_defs tick_defs eval_nat_numeral)

text \<open>
  The amended claim C1 on steps of 8 ticks: the delta, a tick before the swing, and the
  seventh tick, whose \<open>diff\<close> is above \<open>ssp_start + 2 * ssp_duration = 6\<close>.
\<close>

theorem swing_offset_reaches_target_witness:
  "swing_delta LEFT_FOOT demo_stride
     = vec_div (vec_sub (swing_target LEFT_FOOT demo_stride) (swing_offset LEFT_FOOT demo_start)) 4
   \<and> swing_target LEFT_FOOT demo_stride = (1 / 20, 1 / 20, 0)
   \<and> swing_offset LEFT_FOOT demo_ticked = swing_offset LEFT_FOOT demo_stride
   \<and> swing_offset LEFT_FOOT (projr (ticks 7 (demo_plan (2 / 25)) (demo_lipm 8) demo_stride))
       = swing_target LEFT_FOOT demo_stride"
proof -
  let ?f0 = "demo_step LEFT_FOOT 0 0" and ?f1 = "demo_step RIGHT_FOOT (1 / 20) (2 / 25)"
  let ?fs = "[demo_step LEFT_FOOT (1 / 10) (2 * (2 / 25)), demo_step BOTH_FEET (1 / 10) (3 * (2 / 25))]"
  let ?s7 = "projr (ticks 7 (demo_plan (2 / 25)) (demo_lipm 8) demo_stride)"
  note tm = demo_stride_timing
  have g: "set_goal (demo_plan (2 / 25)) (demo_lipm 8) (1 / 10, 0) 0 demo_start = Inr demo_stride"
    using demo_set_goal [of 4 "2 / 25" 8 "1 / 25" "1 / 50"]
    by (simp add: start_defs demo_stride_def)
  have 1: "swing_delta LEFT_FOOT demo_stride
     = vec_div (vec_sub (swing_target LEFT_FOOT demo_stride) (swing_offset LEFT_FOOT demo_start)) 4"
    using swing_offset_reaches_target [of demo_start, THEN conjunct1, rule_format,
        of "demo_plan (2 / 25)" "demo_lipm 8" "(1 / 10, 0)" 0 demo_stride] g
    by (simp add: tm start_defs)
  have e: "tick_entry (demo_plan (2 / 25)) (demo_lipm 8) demo_stride = Inr demo_stride"
    by (simp add: tick_entry_def tm)
  have 2: "swing_offset LEFT_FOOT demo_ticked = swing_offset LEFT_FOOT demo_stride"
    using swing_offset_reaches_target [of demo_stride, THEN conjunct2, THEN conjunct1, rule_format,
        of "demo_plan (2 / 25)" "demo_lipm 8" demo_stride demo_ticked ?f0 ?f1 ?fs, THEN conjunct1]
      e demo_tick
    by (simp add: tm)
  have t7: "ticks 7 (demo_plan (2 / 25)) (demo_lipm 8) demo_stride = Inr ?s7"
    using demo_stride_ticks by simp
  have 3: "swing_offset LEFT_FOOT ?s7 = swing_target LEFT_FOOT demo_stride"
    using swing_offset_reaches_target [of demo_stride, THEN conjunct2, THEN conjunct2, rule_format,
        of 7 "demo_plan (2 / 25)" "demo_lipm 8" ?s7 ?f0 ?f1 ?fs] t7
    by (simp add: tm)
  have 4: "swing_target LEFT_FOOT demo_stride = (1 / 20, 1 / 20, 0)"
    by (simp add: swing_target_def demo_defs)
  from 1 2 3 4 show ?thesis by simp
qed

text \<open>
  The amended claim C2: a tick of a walking controller; on steps of 3 ticks a rising tick,
  a falling tick, and a tick that finds the foot raised and the window empty.
\<close>

theorem lift_stays_nonnegative_witness:
  "0 \<le> left_up demo_ticked \<and> 0 \<le> right_up demo_ticked
   \<and> swing_lift LEFT_FOOT (projr (update_joints (demo_plan (3 / 100)) (demo_lipm 3) (demo_short (1 / 50))))
       = 1 / 100
   \<and> swing_lift LEFT_FOOT demo_raised = 1 / 50
   \<and> swing_lift LEFT_FOOT (projr (update_joints (demo_plan (3 / 100)) (demo_lipm 3) demo_raised))
       = 1 / 100
   \<and> swing_lift LEFT_FOOT demo_narrowed = 1 / 50
   \<and> ssp_duration (demo_step LEFT_FOOT 0 0) (demo_step RIGHT_FOOT (1 / 20) (3 / 100)) demo_narrowed = 0
   \<and> swing_lift LEFT_FOOT (projr (update_joints (demo_plan (3 / 100)) (demo_lipm 3) demo_narrowed))
       = 0"
proof -
  let ?f0 = "demo_step LEFT_FOOT 0 0"
  let ?g1 = "demo_step RIGHT_FOOT (1 / 20) (3 / 100)"
  let ?gs = "[demo_step LEFT_FOOT (1 / 10) (2 * (3 / 100)), demo_step BOTH_FEET (1 / 10) (3 * (3 / 100))]"
  let ?P = "demo_plan (2 / 25)" and ?L = "demo_lipm 8"
  let ?Q = "demo_plan (3 / 100)" and ?M = "demo_lipm 3"
  note tm = demo_stride_timing
  note sm = demo_short_timing [of "1 / 50"]
  have pos: "0 \<le> foot_height demo_stride" "0 \<le> left_up demo_stride" "0 \<le> right_up demo_stride"
    "foot_height demo_stride = 0 \<longrightarrow> left_up demo_stride = 0 \<and> right_up demo_stride = 0"
    "time_step demo_stride \<noteq> 0"
    by (simp_all add: tm)
  note T = lift_stays_nonnegative [OF pos]
  have "evolves demo_stride demo_ticked"
    by (rule evolves.by_tick [OF evolves.stay demo_tick])
  with T have 1: "0 \<le> left_up demo_ticked \<and> 0 \<le> right_up demo_ticked" by blast
  have ps: "0 \<le> foot_height (demo_short (1 / 50))" "0 \<le> left_up (demo_short (1 / 50))"
    "0 \<le> right_up (demo_short (1 / 50))"
    "foot_height (demo_short (1 / 50)) = 0 \<longrightarrow>
       left_up (demo_short (1 / 50)) = 0 \<and> right_up (demo_short (1 / 50)) = 0"
    "time_step (demo_short (1 / 50)) \<noteq> 0"
    by (simp_all add: sm)
  note S = lift_stays_nonnegative [OF ps]
  have u1: "update_joints ?Q ?M (demo_short (1 / 50))
      = Inr (projr (update_joints ?Q ?M (demo_short (1 / 50))))"
    using demo_short_ticks
    by (cases "update_joints ?Q ?M (demo_short (1 / 50))") (simp_all add: eval_nat_numeral)
  have e1: "tick_entry ?Q ?M (demo_short (1 / 50)) = Inr (demo_short (1 / 50))"
    by (simp add: tick_entry_def sm)
  have 2: "swing_lift LEFT_FOOT (projr (update_joints ?Q ?M (demo_short (1 / 50)))) = 1 / 100"
    using S [THEN conjunct2, THEN conjunct1, rule_format,
        of ?Q ?M "demo_short (1 / 50)" "projr (update_joints ?Q ?M (demo_short (1 / 50)))" ?f0 ?g1 ?gs,
        THEN conjunct1] u1 e1
    by (simp add: sm swing_lift_def)
  have r2: "ticks 2 ?Q ?M (demo_short (1 / 50)) = Inr demo_raised"
    using ticks_prefix [of 2 1 ?Q ?M "demo_short (1 / 50)"] demo_short_ticks
    unfolding demo_raised_def by simp
  have r3: "update_joints ?Q ?M demo_raised = Inr (projr (update_joints ?Q ?M demo_raised))"
  proof -
    from ticks_snoc [of 2 ?Q ?M "demo_short (1 / 50)" "projr (ticks 3 ?Q ?M (demo_short (1 / 50)))"]
      demo_short_ticks
    obtain s1 where "ticks 2 ?Q ?M (demo_short (1 / 50)) = Inr s1"
      "update_joints ?Q ?M s1 = Inr (projr (ticks 3 ?Q ?M (demo_short (1 / 50))))"
      by (auto simp: eval_nat_numeral)
    with r2 show ?thesis by simp
  qed
  have set2: "same_settings (demo_short (1 / 50)) demo_raised"
    "com_trajectory demo_raised = drop 2 (com_trajectory (demo_short (1 / 50)))"
    using ticks_settings [OF r2 sm(2) _ sm(1)] by (simp_all add: sm)
  have 3: "swing_lift LEFT_FOOT demo_raised = 1 / 50" and l3: "left_up demo_raised = 0"
    unfolding demo_raised_def
    by (simp_all add: swing_lift_def demo_defs tick_defs eval_nat_numeral)
  have rm: "foot_steps demo_raised = ?f0 # ?g1 # ?gs" "initialized demo_raised"
    "foot_height demo_raised = 1 / 50" "com_trajectory demo_raised \<noteq> []"
    "length (com_trajectory demo_raised) = 1"
    "ssp_start demo_raised = 0" "ssp_end ?f0 ?g1 demo_raised = 2"
    "ssp_duration ?f0 ?g1 demo_raised = 2" "step_period ?f0 ?g1 demo_raised = 3"
    "time_step demo_raised = 1 / 100"
    using set2 same_settings_timing [OF set2(1)] sm
    by (auto simp: same_settings_def)
  have e3: "tick_entry ?Q ?M demo_raised = Inr demo_raised"
    by (simp add: tick_entry_def rm)
  have pr: "0 \<le> foot_height demo_raised" "0 \<le> left_up demo_raised" "0 \<le> right_up demo_raised"
    "foot_height demo_raised = 0 \<longrightarrow> left_up demo_raised = 0 \<and> right_up demo_raised = 0"
    "time_step demo_raised \<noteq> 0"
    using 3 l3 by (simp_all add: rm swing_lift_def)
  have td: "tick_diff ?f0 ?g1 demo_raised = 3"
    using rm by (cases "com_trajectory demo_raised") (simp_all add: tick_diff_def)
  have 5: "swing_lift LEFT_FOOT (projr (update_joints ?Q ?M demo_raised)) = 1 / 100"
    using lift_stays_nonnegative [OF pr, THEN conjunct2, THEN conjunct1, rule_format,
        of ?Q ?M demo_raised "projr (update_joints ?Q ?M demo_raised)" ?f0 ?g1 ?gs,
        THEN conjunct2] r3 e3
    by (simp add: rm td 3)
  have nm: "foot_steps demo_narrowed = ?f0 # ?g1 # ?gs" "initialized demo_narrowed"
    "foot_height demo_narrowed = 1 / 50" "com_trajectory demo_narrowed \<noteq> []"
    "ssp_start demo_narrowed = 2" "ssp_end ?f0 ?g1 demo_narrowed = 2"
    "ssp_duration ?f0 ?g1 demo_narrowed = 0"
    "tick_diff ?f0 ?g1 demo_narrowed = 3"
    "swing_lift LEFT_FOOT demo_narrowed = 1 / 50" "left_up demo_narrowed = 0"
    "right_up demo_narrowed = 1 / 50" "time_step demo_narrowed = 1 / 100"
    using 3
    by (simp_all add: demo_narrowed_def step_period_def ssp_start_def ssp_end_def ssp_duration_def
        tick_diff_def swing_lift_def c_round_def rm(1-5,10) l3)
  have e4: "tick_entry ?Q ?M demo_narrowed = Inr demo_narrowed"
    by (simp add: tick_entry_def nm)
  have "\<not> isl (update_joints ?Q ?M demo_narrowed)"
    unfolding demo_narrowed_def demo_raised_def
    by (simp add: demo_defs tick_defs eval_nat_numeral)
  then have r4: "update_joints ?Q ?M demo_narrowed = Inr (projr (update_joints ?Q ?M demo_narrowed))"
    by simp
  have pn: "0 \<le> foot_height demo_narrowed" "0 \<le> left_up demo_narrowed" "0 \<le> right_up demo_narrowed"
    "foot_height demo_narrowed = 0 \<longrightarrow> left_up demo_narrowed = 0 \<and> right_up demo_narrowed = 0"
    "time_step demo_narrowed \<noteq> 0"
    by (simp_all add: nm)
  have 6: "swing_lift LEFT_FOOT (projr (update_joints ?Q ?M demo_narrowed)) = 0"
    using lift_stays_nonnegative [OF pn, THEN conjunct2, THEN conjunct1, rule_format,
        of ?Q ?M demo_narrowed "projr (update_joints ?Q ?M demo_narrowed)" ?f0 ?g1 ?gs,
        THEN conjunct2] r4 e4
    by (simp add: nm)
  from 1 2 3 5 6 nm(7,9) show ?thesis by simp
qed

end
